theory Spec2Isabelle
  imports Complex_Main
begin

section \<open>Data model shared by the two example programs\<close>

text \<open>
  The two sources, \<^verbatim>\<open>examples/exAdvection.cpp\<close> and \<^verbatim>\<open>examples/distance.cpp\<close>, are written
  against the finite element library (mesh, spaces, quadrature tables, solvers), whose
  code is not part of the two files. What the library computes is taken as a parameter
  of the model (a field of a record, or an argument); what the two files compute
  themselves is translated statement by statement.

  A C++ \<^verbatim>\<open>double\<close> is modelled as a real number: rounding, infinities and NaN are
  outside the model. A \<^verbatim>\<open>Vector\<close> that is only read through \<^verbatim>\<open>operator()\<close> is a
  function from the index to the entry; a vector that is built and handed back is a list.
\<close>

record IntegrationPoint =
  ip_x :: real
  ip_y :: real
  ip_z :: real
  ip_weight :: real

type_synonym IntegrationRule = "IntegrationPoint list"

text \<open>
  An \<^verbatim>\<open>ElementTransformation\<close>: the integration point it is currently set to
  (\<^verbatim>\<open>SetIntPoint\<close>, \<^verbatim>\<open>GetIntPoint\<close>), the order of its weight (\<^verbatim>\<open>OrderW\<close>), the element
  number and the map from reference to physical coordinates (\<^verbatim>\<open>Transform\<close>).
\<close>

record ElementTransformation =
  IntPoint :: IntegrationPoint
  OrderW :: int
  ElementNo :: int
  Transform :: "IntegrationPoint \<Rightarrow> real list"

definition SetIntPoint :: "ElementTransformation \<Rightarrow> IntegrationPoint \<Rightarrow> ElementTransformation" where
  "SetIntPoint T ip = T\<lparr>IntPoint := ip\<rparr>"

definition GetIntPoint :: "ElementTransformation \<Rightarrow> IntegrationPoint" where
  "GetIntPoint T = IntPoint T"

text \<open>
  A \<^verbatim>\<open>FaceElementTransformations\<close>: the numbers of the two adjacent elements
  (\<^verbatim>\<open>Elem2No < 0\<close> on a boundary face), their transformations, the transformation of the
  face, and the two maps \<^verbatim>\<open>Loc1.Transform\<close>, \<^verbatim>\<open>Loc2.Transform\<close> from a point of the face
  to a point of the reference element on either side.
\<close>

record FaceElementTransformations =
  Elem1No :: int
  Elem2No :: int
  Elem1 :: ElementTransformation
  Elem2 :: ElementTransformation
  Face :: ElementTransformation
  Loc1 :: "IntegrationPoint \<Rightarrow> IntegrationPoint"
  Loc2 :: "IntegrationPoint \<Rightarrow> IntegrationPoint"
  FaceGeom :: nat

datatype FunctionSpace = Pk | Qk | rQk

text \<open>
  A \<^verbatim>\<open>FiniteElement\<close>. \<^verbatim>\<open>CalcShape el ip i\<close> is entry \<^verbatim>\<open>i\<close> of the vector that
  \<^verbatim>\<open>el.CalcShape(ip, shape)\<close> fills, the value of shape function \<^verbatim>\<open>i\<close> at the point.
\<close>

record FiniteElement =
  GetDim :: nat
  GetDof :: nat
  GetOrder :: int
  Space :: FunctionSpace
  GetGeomType :: nat
  CalcShape :: "IntegrationPoint \<Rightarrow> nat \<Rightarrow> real"
  CalcPhysShape :: "ElementTransformation \<Rightarrow> nat \<Rightarrow> real"

text \<open>A coefficient is its \<^verbatim>\<open>Eval\<close> method.\<close>

type_synonym Coefficient = "ElementTransformation \<Rightarrow> IntegrationPoint \<Rightarrow> real"
type_synonym VectorCoefficient = "ElementTransformation \<Rightarrow> IntegrationPoint \<Rightarrow> nat \<Rightarrow> real"
type_synonym DeltaCoefficient = "ElementTransformation \<Rightarrow> IntegrationPoint \<Rightarrow> real"

definition ConstantCoefficient :: "real \<Rightarrow> Coefficient" where
  "ConstantCoefficient c = (\<lambda>T ip. c)"

definition FunctionCoefficient :: "(real list \<Rightarrow> real) \<Rightarrow> Coefficient" where
  "FunctionCoefficient f = (\<lambda>T ip. f (Transform T ip))"

text \<open>
  A \<^verbatim>\<open>DenseMatrix\<close>: its size and the entry that \<^verbatim>\<open>elmat(i, j)\<close> denotes. The layout in
  memory is not modelled.
\<close>

record DenseMatrix =
  Height :: nat
  Width :: nat
  entry :: "nat \<Rightarrow> nat \<Rightarrow> real"

text \<open>\<^verbatim>\<open>elmat.SetSize(s); elmat = 0.0;\<close>\<close>

definition zero_matrix :: "nat \<Rightarrow> DenseMatrix" where
  "zero_matrix s = \<lparr>Height = s, Width = s, entry = (\<lambda>i j. 0)\<rparr>"

text \<open>\<^verbatim>\<open>elmat(i, j) += v;\<close>\<close>

definition add_entry :: "DenseMatrix \<Rightarrow> nat \<Rightarrow> nat \<Rightarrow> real \<Rightarrow> DenseMatrix" where
  "add_entry M i j v = M\<lparr>entry := (entry M)(i := (entry M i)(j := entry M i j + v))\<rparr>"

text \<open>\<^verbatim>\<open>for (int i = 0; i < n; i++) body\<close>, the body changing the state \<^verbatim>\<open>s\<close>.\<close>

definition for_loop :: "nat \<Rightarrow> (nat \<Rightarrow> 's \<Rightarrow> 's) \<Rightarrow> 's \<Rightarrow> 's" where
  "for_loop n body s = fold body [0..<n] s"

text \<open>\<^verbatim>\<open>vu * nor\<close>, the inner product of two vectors of size \<^verbatim>\<open>dim\<close> (written \<open>dimn\<close> here).\<close>

definition inner_product :: "nat \<Rightarrow> (nat \<Rightarrow> real) \<Rightarrow> (nat \<Rightarrow> real) \<Rightarrow> real" where
  "inner_product dimn v1 v2 = sum_list (map (\<lambda>k. v1 k * v2 k) [0..<dimn])"

text \<open>
  Errors. The function \<^verbatim>\<open>mfem_error\<close> and the macro \<^verbatim>\<open>MFEM_ASSERT\<close> are declared in the
  library, outside the two files.
\<close>

datatype error = mfem_abort string | assertion_failure string | null_dereference

text \<open>
  Modelled from the spec: \<^verbatim>\<open>mfem_error(msg)\<close>, whose body is in the library.
  The spec has a programming-contract violation "fail loudly (abort/fatal)" and "halt
  immediately with a descriptive message": the call does not return, and the run ends
  with the message.
\<close>

definition mfem_error :: "string \<Rightarrow> error + 'a" where
  "mfem_error msg = Inl (mfem_abort msg)"

text \<open>
  The macro \<^verbatim>\<open>MFEM_ASSERT(cond, msg)\<close> of the library (\<^verbatim>\<open>general/error.hpp\<close>). It is
  conditional on how the library is built: when \<^verbatim>\<open>MFEM_DEBUG\<close> is defined and the
  condition is false, the run ends with the message; when \<^verbatim>\<open>MFEM_DEBUG\<close> is not defined
  the macro expands to nothing, the condition is not evaluated and the rest of the
  function runs. The first argument is whether \<^verbatim>\<open>MFEM_DEBUG\<close> is defined.
\<close>

definition MFEM_ASSERT :: "bool \<Rightarrow> bool \<Rightarrow> string \<Rightarrow> (error + 'a) \<Rightarrow> error + 'a" where
  "MFEM_ASSERT MFEM_DEBUG cond msg rest =
     (if MFEM_DEBUG \<and> \<not> cond then Inl (assertion_failure msg) else rest)"

section \<open>exAdvection.cpp: the integrators\<close>

text \<open>
  The classes are declared in \<^verbatim>\<open>exAdvection.hpp\<close>; the members below are the ones the
  method bodies use. \<^verbatim>\<open>IntRule\<close> is a pointer that may be \<^verbatim>\<open>NULL\<close>, as is \<^verbatim>\<open>delta\<close>.
\<close>

record DGFaceIntegrator =
  dgf_IntRule :: "IntegrationRule option"
  dgf_u :: VectorCoefficient

record BoundaryAdvectIntegrator =
  baf_IntRule :: "IntegrationRule option"
  baf_uD :: Coefficient
  baf_u :: VectorCoefficient

record AdvDomainLFIntegrator =
  lf_IntRule :: "IntegrationRule option"
  lf_Q :: Coefficient
  lf_delta :: "DeltaCoefficient option"
  lf_oa :: int
  lf_ob :: int

subsection \<open>\<^verbatim>\<open>AdvDomainLFIntegrator::AssembleDeltaElementVect\<close>\<close>

text \<open>
  The assertion, then \<^verbatim>\<open>elvect.SetSize(fe.GetDof())\<close>, \<^verbatim>\<open>fe.CalcPhysShape(Trans, elvect)\<close> and
  \<^verbatim>\<open>elvect *= delta->EvalDelta(Trans, Trans.GetIntPoint())\<close>. When the assertion is
  compiled out and \<^verbatim>\<open>delta\<close> is \<^verbatim>\<open>NULL\<close>, the last line calls a method through the null
  pointer: the behaviour is undefined in C++, and the model records it as the error
  \<open>null_dereference\<close>, with no vector returned.
\<close>

definition AssembleDeltaElementVect ::
  "bool \<Rightarrow> AdvDomainLFIntegrator \<Rightarrow> FiniteElement \<Rightarrow> ElementTransformation \<Rightarrow> error + real list" where
  "AssembleDeltaElementVect MFEM_DEBUG integ fe Trans =
     MFEM_ASSERT MFEM_DEBUG (lf_delta integ \<noteq> None) ''coefficient must be DeltaCoefficient''
       (let elvect = map (CalcPhysShape fe Trans) [0..<GetDof fe]
        in case lf_delta integ of
             None \<Rightarrow> Inl null_dereference
           | Some delta \<Rightarrow> Inr (map (\<lambda>v. v * delta Trans (GetIntPoint Trans)) elvect))"

subsection \<open>\<^verbatim>\<open>DGFaceIntegrator::AssembleFaceMatrix\<close>\<close>

text \<open>
  The order of the quadrature rule when \<^verbatim>\<open>IntRule\<close> is \<^verbatim>\<open>NULL\<close>, and the rule itself.
  \<^verbatim>\<open>IntRules\<close> is the library's table of rules, by geometry and order.
\<close>

definition face_order :: "FiniteElement \<Rightarrow> FiniteElement \<Rightarrow> FaceElementTransformations \<Rightarrow> int" where
  "face_order el1 el2 Trans =
     (let order =
        (if Elem2No Trans \<ge> 0
         then min (OrderW (Elem1 Trans)) (OrderW (Elem2 Trans))
              + 2 * max (GetOrder el1) (GetOrder el2)
         else OrderW (Elem1 Trans) + 2 * GetOrder el1)
      in if Space el1 = Pk then order + 1 else order)"

definition face_rule ::
  "(nat \<Rightarrow> int \<Rightarrow> IntegrationRule) \<Rightarrow> IntegrationRule option \<Rightarrow> FiniteElement \<Rightarrow> FiniteElement
     \<Rightarrow> FaceElementTransformations \<Rightarrow> IntegrationRule" where
  "face_rule IntRules IntRule el1 el2 Trans =
     (case IntRule of
        Some ir \<Rightarrow> ir
      | None \<Rightarrow> IntRules (FaceGeom Trans) (face_order el1 el2 Trans))"

text \<open>
  The normal velocity at a point of the face. \<^verbatim>\<open>nor\<close> is declared \<^verbatim>\<open>Vector nor(dim)\<close>
  and only \<^verbatim>\<open>nor(0)\<close> is ever assigned: \<^verbatim>\<open>nor0\<close> stands for the contents the vector
  has when it is allocated, which the other entries keep.
\<close>

definition normal_velocity ::
  "VectorCoefficient \<Rightarrow> (nat \<Rightarrow> real) \<Rightarrow> nat \<Rightarrow> ElementTransformation \<Rightarrow> IntegrationPoint \<Rightarrow> real" where
  "normal_velocity u nor0 dimn T eip =
     (let vu = u T eip;
          nor = nor0(0 := 2 * ip_x eip - 1.0)
      in inner_product dimn vu nor)"

text \<open>
  The body of the loop over the quadrature points (lines 267 to 328). The four double
  loops are the four blocks; \<^verbatim>\<open>elmat(i, j) -= v\<close> adds \<^verbatim>\<open>- v\<close>. The lines written to
  \<^verbatim>\<open>cout\<close> on a boundary face do not change \<^verbatim>\<open>elmat\<close> and are left out.
\<close>

definition face_point ::
  "VectorCoefficient \<Rightarrow> (nat \<Rightarrow> real) \<Rightarrow> FiniteElement \<Rightarrow> FiniteElement \<Rightarrow> FaceElementTransformations
     \<Rightarrow> nat \<Rightarrow> nat \<Rightarrow> nat \<Rightarrow> IntegrationPoint \<Rightarrow> DenseMatrix \<Rightarrow> DenseMatrix" where
  "face_point u nor0 el1 el2 Trans dimn ndof1 ndof2 ip elmat0 =
     (let eip1 = Loc1 Trans ip;
          shape1 = CalcShape el1 eip1;
          un = normal_velocity u nor0 dimn (SetIntPoint (Elem1 Trans) eip1) eip1;
          a = un;
          b = \<bar>un\<bar>;
          w = 0.5 * ip_weight ip * (a + b);
          elmat1 =
            (if w \<noteq> 0.0
             then for_loop ndof1 (\<lambda>i. for_loop ndof1 (\<lambda>j M.
                    add_entry M i j (w * shape1 i * shape1 j))) elmat0
             else elmat0)
      in if ndof2 \<noteq> 0 then
           (let eip2 = Loc2 Trans ip;
                shape2 = CalcShape el2 eip2;
                elmat2 =
                  (if w \<noteq> 0.0
                   then for_loop ndof2 (\<lambda>i. for_loop ndof1 (\<lambda>j M.
                          add_entry M j (ndof1 + i) (- (w * shape2 i * shape1 j)))) elmat1
                   else elmat1);
                w' = 0.5 * ip_weight ip * (a - b)
            in if w' \<noteq> 0.0 then
                 (let elmat3 =
                        for_loop ndof2 (\<lambda>i. for_loop ndof2 (\<lambda>j M.
                          add_entry M (ndof1 + i) (ndof1 + j) (- (w' * shape2 i * shape2 j)))) elmat2
                  in for_loop ndof1 (\<lambda>i. for_loop ndof2 (\<lambda>j M.
                          add_entry M (ndof1 + j) i (w' * shape1 i * shape2 j))) elmat3)
               else elmat2)
         else elmat1)"

definition AssembleFaceMatrix ::
  "(nat \<Rightarrow> int \<Rightarrow> IntegrationRule) \<Rightarrow> DGFaceIntegrator \<Rightarrow> (nat \<Rightarrow> real) \<Rightarrow> FiniteElement \<Rightarrow> FiniteElement
     \<Rightarrow> FaceElementTransformations \<Rightarrow> DenseMatrix" where
  "AssembleFaceMatrix IntRules integ nor0 el1 el2 Trans =
     (let dimn = GetDim el1;
          ndof1 = GetDof el1;
          ndof2 = (if Elem2No Trans \<ge> 0 then GetDof el2 else 0);
          elmat = zero_matrix (ndof1 + ndof2);
          ir = face_rule IntRules (dgf_IntRule integ) el1 el2 Trans
      in fold (face_point (dgf_u integ) nor0 el1 el2 Trans dimn ndof1 ndof2) ir elmat)"

subsection \<open>\<^verbatim>\<open>BoundaryAdvectIntegrator::AssembleRHSElementVect\<close>\<close>

definition bdr_order :: "FiniteElement \<Rightarrow> FaceElementTransformations \<Rightarrow> int" where
  "bdr_order el Tr =
     (let order = OrderW (Elem1 Tr) + 2 * GetOrder el
      in if Space el = Pk then order + 1 else order)"

text \<open>\<^verbatim>\<open>elvect.Add(w, shape)\<close>: every entry of \<^verbatim>\<open>elvect\<close> gains \<^verbatim>\<open>w\<close> times that of \<^verbatim>\<open>shape\<close>.\<close>

definition Vector_Add :: "real list \<Rightarrow> real \<Rightarrow> (nat \<Rightarrow> real) \<Rightarrow> real list" where
  "Vector_Add elvect w shape = map (\<lambda>i. elvect ! i + w * shape i) [0..<length elvect]"

text \<open>
  The weight of a quadrature point (lines 364 to 370): first the upwind factor, then
  \<^verbatim>\<open>w *= ip.weight * uD->Eval(*Tr.Elem1, eip)\<close>. The lines written to \<^verbatim>\<open>cout\<close> do not
  change \<^verbatim>\<open>elvect\<close> and are left out.
\<close>

definition bdr_upwind_factor :: "real \<Rightarrow> real" where
  "bdr_upwind_factor un = - 0.5 * (un - \<bar>un\<bar>)"

definition bdr_weight ::
  "BoundaryAdvectIntegrator \<Rightarrow> (nat \<Rightarrow> real) \<Rightarrow> nat \<Rightarrow> FaceElementTransformations \<Rightarrow> IntegrationPoint \<Rightarrow> real" where
  "bdr_weight integ nor0 dimn Tr ip =
     (let eip = Loc1 Tr ip;
          un = normal_velocity (baf_u integ) nor0 dimn (Elem1 Tr) eip;
          w = bdr_upwind_factor un
      in w * (ip_weight ip * baf_uD integ (Elem1 Tr) eip))"

definition bdr_point ::
  "BoundaryAdvectIntegrator \<Rightarrow> (nat \<Rightarrow> real) \<Rightarrow> FiniteElement \<Rightarrow> FaceElementTransformations \<Rightarrow> nat
     \<Rightarrow> IntegrationPoint \<Rightarrow> real list \<Rightarrow> real list" where
  "bdr_point integ nor0 el Tr dimn ip elvect =
     (let eip = Loc1 Tr ip;
          shape = CalcShape el eip;
          w = bdr_weight integ nor0 dimn Tr ip
      in Vector_Add elvect w shape)"

text \<open>The overload for a face: \<^verbatim>\<open>AssembleRHSElementVect(el, FaceElementTransformations &Tr, elvect)\<close>.\<close>

definition AssembleRHSElementVect_face ::
  "(nat \<Rightarrow> int \<Rightarrow> IntegrationRule) \<Rightarrow> BoundaryAdvectIntegrator \<Rightarrow> (nat \<Rightarrow> real) \<Rightarrow> FiniteElement
     \<Rightarrow> FaceElementTransformations \<Rightarrow> real list" where
  "AssembleRHSElementVect_face IntRules integ nor0 el Tr =
     (let dimn = GetDim el;
          ndof = GetDof el;
          elvect = replicate ndof 0.0;
          ir = (case baf_IntRule integ of
                  Some r \<Rightarrow> r
                | None \<Rightarrow> IntRules (FaceGeom Tr) (bdr_order el Tr))
      in fold (bdr_point integ nor0 el Tr dimn) ir elvect)"

text \<open>
  The overload for a plain element transformation:
  \<^verbatim>\<open>AssembleRHSElementVect(el, ElementTransformation &Tr, elvect)\<close>. Its body is the one
  call of \<^verbatim>\<open>mfem_error\<close>.
\<close>

definition not_implemented_message :: string where
  "not_implemented_message =
     ''BoundaryFlowIntegrator::AssembleRHSElementVect\<newline>'' @
     ''  is not implemented as boundary integrator!\<newline>'' @
     ''  Use LinearForm::AddBdrFaceIntegrator instead of\<newline>'' @
     ''  LinearForm::AddBoundaryIntegrator.''"

definition AssembleRHSElementVect_element ::
  "BoundaryAdvectIntegrator \<Rightarrow> FiniteElement \<Rightarrow> ElementTransformation \<Rightarrow> real list \<Rightarrow> error + real list" where
  "AssembleRHSElementVect_element integ el Tr elvect = mfem_error not_implemented_message"

subsection \<open>The exact solution, the source and the velocity\<close>

definition u_exact :: "real list \<Rightarrow> real" where
  "u_exact x = exp (x ! 0)"

definition f_exact :: "real list \<Rightarrow> real" where
  "f_exact x = - exp (x ! 0)"

definition velocity_function :: "real list \<Rightarrow> real list \<Rightarrow> real list" where
  "velocity_function x v =
     (let dimn = length x
      in if dimn = 1 then v[0 := - 1.0]
         else if dimn = 2 then (v[0 := sqrt (2 / 3)])[1 := sqrt (1 / 3)]
         else if dimn = 3 then ((v[0 := sqrt (3 / 6)])[1 := sqrt (2 / 6)])[2 := sqrt (1 / 6)]
         else v)"


text \<open>
  \<^verbatim>\<open>VectorFunctionCoefficient(dim, F)\<close>: its \<^verbatim>\<open>Eval\<close> sizes the result to \<^verbatim>\<open>dim\<close>, maps the
  point to physical coordinates and calls \<^verbatim>\<open>F\<close>, which assigns the entries.
\<close>

definition VectorFunctionCoefficient ::
  "nat \<Rightarrow> (real list \<Rightarrow> real list \<Rightarrow> real list) \<Rightarrow> VectorCoefficient" where
  "VectorFunctionCoefficient vdim F = (\<lambda>T ip k. F (Transform T ip) (replicate vdim 0) ! k)"

section \<open>What the two main programs use of the library\<close>

record Mesh =
  Dimension :: nat
  GetNE :: nat
  GetNodes :: "string option"
  bdr_attributes_Size :: nat
  bdr_attributes_Max :: nat

datatype FiniteElementCollection =
    DG_FECollection int nat
  | H1_FECollection int nat
  | OwnFEC string

text \<open>
  A finite element space: the mesh and the collection it is built from, and what the
  library derives from them. For a marker of boundary attributes,
  \<^verbatim>\<open>GetEssentialTrueDofs\<close> is the list the method of that name fills and \<^verbatim>\<open>GetBdrDofs\<close>
  lists the degrees of freedom of a grid function that lie on the marked part of the
  boundary; \<^verbatim>\<open>GetDofPoint\<close> is the point at which a nodal degree of freedom is evaluated.
\<close>

record FiniteElementSpace =
  fes_mesh :: Mesh
  fes_fec :: FiniteElementCollection
  GetVSize :: nat
  GetTrueVSize :: nat
  GetEssentialTrueDofs :: "int list \<Rightarrow> nat list"
  GetBdrDofs :: "int list \<Rightarrow> nat list"
  GetDofPoint :: "nat \<Rightarrow> ElementTransformation \<times> IntegrationPoint"
  UsesTensorBasis :: bool

datatype AssemblyLevel = LEGACY | PARTIAL

datatype BilinearFormIntegrator =
    MassIntegrator Coefficient
  | DiffusionIntegrator Coefficient
  | AdvectionIntegrator VectorCoefficient real
  | new_DGFaceIntegrator VectorCoefficient
  | TransposeIntegrator BilinearFormIntegrator

datatype LinearFormIntegrator =
    new_AdvDomainLFIntegrator Coefficient
  | new_BoundaryAdvectIntegrator Coefficient VectorCoefficient

record BilinearForm =
  bf_assembly :: AssemblyLevel
  bf_static_cond :: bool
  bf_domain :: "BilinearFormIntegrator list"
  bf_interior_face :: "BilinearFormIntegrator list"
  bf_bdr_face :: "BilinearFormIntegrator list"

record LinearForm =
  lform_domain :: "LinearFormIntegrator list"
  lform_bdr_face :: "LinearFormIntegrator list"

type_synonym Operator = "nat \<Rightarrow> nat \<Rightarrow> real"

datatype Solver =
    GSSmoother Operator
  | HypreBoomerAMG
  | OperatorJacobiSmoother BilinearForm "nat list"

record CGSolver =
  cg_RelTol :: real
  cg_MaxIter :: int
  cg_PrintLevel :: int
  cg_Preconditioner :: "Solver option"

text \<open>
  The library as the two programs call it. Each field is one entry point; the model
  says nothing about what it computes.
\<close>

record 'opts library =
  Parse :: "'opts \<Rightarrow> string list \<Rightarrow> 'opts option"
  MakeMesh1D :: "int \<Rightarrow> real \<Rightarrow> Mesh"
  MakeParMesh :: "string \<Rightarrow> int \<Rightarrow> nat \<Rightarrow> Mesh"
  MakeSpace :: "Mesh \<Rightarrow> FiniteElementCollection \<Rightarrow> FiniteElementSpace"
  LinearForm_Assemble :: "FiniteElementSpace \<Rightarrow> LinearForm \<Rightarrow> real list"
  BilinearForm_Assemble :: "FiniteElementSpace \<Rightarrow> BilinearForm \<Rightarrow> Operator"
  ProjectCoefficient :: "FiniteElementSpace \<Rightarrow> Coefficient \<Rightarrow> real list"
  GMRES :: "Operator \<Rightarrow> Solver \<Rightarrow> real list \<Rightarrow> real list \<Rightarrow> int \<Rightarrow> int \<Rightarrow> int \<Rightarrow> real \<Rightarrow> real \<Rightarrow> real list"
  UMFPackSolver_Mult :: "Operator \<Rightarrow> real list \<Rightarrow> real list \<Rightarrow> real list"
  ComputeL2Error :: "FiniteElementSpace \<Rightarrow> real list \<Rightarrow> Coefficient \<Rightarrow> real"
  ComputeL1Error :: "FiniteElementSpace \<Rightarrow> real list \<Rightarrow> Coefficient \<Rightarrow> real"
  ComputeMaxError :: "FiniteElementSpace \<Rightarrow> real list \<Rightarrow> Coefficient \<Rightarrow> real"
  FormLinearSystem :: "FiniteElementSpace \<Rightarrow> BilinearForm \<Rightarrow> nat list \<Rightarrow> real list \<Rightarrow> real list
                         \<Rightarrow> Operator \<times> real list \<times> real list"
  CGSolver_Mult :: "CGSolver \<Rightarrow> Operator \<Rightarrow> real list \<Rightarrow> real list \<Rightarrow> real list"
  RecoverFEMSolution :: "FiniteElementSpace \<Rightarrow> BilinearForm \<Rightarrow> real list \<Rightarrow> real list \<Rightarrow> real list \<Rightarrow> real list"

text \<open>What a run writes and which library calls with an effect it makes, in program order.\<close>

datatype event =
    PrintUsage
  | PrintOptions
  | MPI_Finalize
  | Device_Print
  | Print_number_of_elements nat
  | Print_number_of_unknowns nat
  | Print_isoparametric string
  | Write_file string
  | Assemble_LinearForm LinearForm
  | Assemble_BilinearForm BilinearForm
  | Solve_GMRES
  | Solve_UMFPack
  | Solve_CG CGSolver
  | Print_solution "real list"
  | Print_mesh_size real
  | Print_solution_norm real
  | Print_L1_error real
  | Print_Linf_error real
  | GLVis string
  | ParaView_Save


text \<open>
  Modelled from the spec: \<^verbatim>\<open>GridFunction::ProjectBdrCoefficient(coeff, attr)\<close>, whose body is
  in the library. The spec has the degrees of freedom of the marked boundary "forced to
  prescribed values", the Dirichlet data: each of them is set to the value of the
  coefficient at its point, and no other entry changes.
\<close>

definition ProjectBdrCoefficient ::
  "FiniteElementSpace \<Rightarrow> Coefficient \<Rightarrow> int list \<Rightarrow> real list \<Rightarrow> real list" where
  "ProjectBdrCoefficient fes coeff attr v =
     fold (\<lambda>d v'. v'[d := (case GetDofPoint fes d of (T, ip) \<Rightarrow> coeff T ip)]) (GetBdrDofs fes attr) v"

section \<open>distance.cpp\<close>

subsection \<open>The exact distance functions\<close>

definition ExactSegmentDistCoeff :: Coefficient where
  "ExactSegmentDistCoeff = (\<lambda>T ip.
     (let x = Transform T ip in min (x ! 0) (1.0 - x ! 0)))"

definition ExactQuadDistCoeff :: Coefficient where
  "ExactQuadDistCoeff = (\<lambda>T ip.
     (let x = Transform T ip
      in min (min (x ! 0) (1.0 - x ! 0)) (min (x ! 1) (1.0 - x ! 1))))"

definition ExactCircleDistCoeff :: Coefficient where
  "ExactCircleDistCoeff = (\<lambda>T ip.
     (let x = Transform T ip;
          rad = sqrt (x ! 0 * x ! 0 + x ! 1 * x ! 1)
      in 1.0 - rad))"

subsection \<open>\<^verbatim>\<open>main\<close>\<close>

record distance_options =
  mesh_file :: string
  rs_levels :: int
  order :: int
  t_param :: real
  static_cond :: bool
  pa :: bool
  device_config :: string
  visualization :: bool

text \<open>The values the variables have before \<^verbatim>\<open>args.Parse()\<close> (lines 101 to 108).\<close>

definition distance_defaults :: distance_options where
  "distance_defaults =
     \<lparr>mesh_file = ''../data/star.mesh'', rs_levels = 0, order = 1, t_param = 1.0,
      static_cond = False, pa = False, device_config = ''cpu'', visualization = True\<rparr>"

text \<open>Lines 166 to 186: the collection, and the value \<^verbatim>\<open>order\<close> has afterwards.\<close>

definition select_fec :: "distance_options \<Rightarrow> Mesh \<Rightarrow> nat \<Rightarrow> FiniteElementCollection \<times> int" where
  "select_fec args pmesh dimn =
     (if order args > 0 then (H1_FECollection (order args) dimn, order args)
      else (case GetNodes pmesh of
              Some name \<Rightarrow> (OwnFEC name, order args)
            | None \<Rightarrow> (H1_FECollection 1 dimn, 1)))"

text \<open>Lines 195 to 201.\<close>

definition essential_dofs :: "Mesh \<Rightarrow> FiniteElementSpace \<Rightarrow> nat list" where
  "essential_dofs pmesh fespace =
     (if bdr_attributes_Size pmesh \<noteq> 0
      then (let ess_bdr = replicate (bdr_attributes_Max pmesh) 1
            in GetEssentialTrueDofs fespace ess_bdr)
      else [])"

text \<open>Lines 204 to 208: \<^verbatim>\<open>w = 0.0\<close>, then the boundary values of \<^verbatim>\<open>w\<close>.\<close>

definition boundary_data :: "Mesh \<Rightarrow> FiniteElementSpace \<Rightarrow> real list" where
  "boundary_data pmesh fespace =
     (let w = replicate (GetVSize fespace) 0.0;
          bdr = replicate (bdr_attributes_Max pmesh) 1;
          one = ConstantCoefficient 1.0
      in ProjectBdrCoefficient fespace one bdr w)"

text \<open>Lines 215 to 219 and 225: the bilinear form.\<close>

definition lhs_form :: "distance_options \<Rightarrow> BilinearForm" where
  "lhs_form args =
     (let one = ConstantCoefficient 1.0;
          t_coeff = ConstantCoefficient (t_param args)
      in \<lparr>bf_assembly = (if pa args then PARTIAL else LEGACY),
          bf_static_cond = static_cond args,
          bf_domain = [MassIntegrator one, DiffusionIntegrator t_coeff],
          bf_interior_face = [],
          bf_bdr_face = []\<rparr>)"

text \<open>Lines 235 to 243.\<close>

definition select_preconditioner ::
  "bool \<Rightarrow> FiniteElementSpace \<Rightarrow> BilinearForm \<Rightarrow> nat list \<Rightarrow> Solver option" where
  "select_preconditioner use_pa fespace a ess_tdof_list =
     (if use_pa
      then (if UsesTensorBasis fespace
            then Some (OperatorJacobiSmoother a ess_tdof_list)
            else None)
      else Some HypreBoomerAMG)"

text \<open>Lines 245 to 249. \<^verbatim>\<open>SetPreconditioner\<close> is called only when \<^verbatim>\<open>prec\<close> is not \<^verbatim>\<open>NULL\<close>.\<close>

definition configure_cg :: "Solver option \<Rightarrow> CGSolver" where
  "configure_cg prec =
     \<lparr>cg_RelTol = 1 / 10 ^ 12, cg_MaxIter = 5000, cg_PrintLevel = 1, cg_Preconditioner = prec\<rparr>"

text \<open>
  Lines 259 to 263, the Varadhan transformation. \<^verbatim>\<open>u\<close> and \<^verbatim>\<open>w\<close> are grid functions of
  the same space, so \<^verbatim>\<open>u.Size()\<close> is the size of \<^verbatim>\<open>w\<close>. \<^verbatim>\<open>log\<close> is the natural
  logarithm; where \<^verbatim>\<open>w(i)\<close> is not positive the C++ value is infinite or NaN and the
  model says nothing.
\<close>

definition Varadhan :: "real \<Rightarrow> real list \<Rightarrow> real list" where
  "Varadhan t w = map (\<lambda>i. - sqrt t * ln (w ! i)) [0..<length w]"

text \<open>Lines 265 to 278: three comparisons of the file name, in this order.\<close>

definition select_exact_dist :: "string \<Rightarrow> Coefficient option" where
  "select_exact_dist file =
     (let exact_dist = None;
          exact_dist = (if file = ''../data/inline-segment.mesh''
                        then Some ExactSegmentDistCoeff else exact_dist);
          exact_dist = (if file = ''../data/inline-quad.mesh''
                        then Some ExactQuadDistCoeff else exact_dist);
          exact_dist = (if file = ''./cir.msh''
                        then Some ExactCircleDistCoeff else exact_dist)
      in exact_dist)"

text \<open>The variables of \<^verbatim>\<open>main\<close> once the solution and the errors are computed.\<close>

record distance_vars =
  d_pmesh :: Mesh
  d_fec :: FiniteElementCollection
  d_order :: int
  d_fespace :: FiniteElementSpace
  d_ess_tdof_list :: "nat list"
  d_w_bc :: "real list"
  d_b :: "real list"
  d_a :: BilinearForm
  d_system :: "Operator \<times> real list \<times> real list"
  d_cg :: CGSolver
  d_X :: "real list"
  d_w :: "real list"
  d_u :: "real list"
  d_exact_dist :: "Coefficient option"
  d_errors :: "(real \<times> real) option"
  d_u_error :: "real list option"

definition distance_solve :: "distance_options library \<Rightarrow> distance_options \<Rightarrow> distance_vars" where
  "distance_solve lib args =
     (let pmesh = MakeParMesh lib (mesh_file args) (rs_levels args) 2;
          dimn = Dimension pmesh;
          (fec, order') = select_fec args pmesh dimn;
          fespace = MakeSpace lib pmesh fec;
          ess_tdof_list = essential_dofs pmesh fespace;
          w = boundary_data pmesh fespace;
          b = replicate (GetVSize fespace) 0.0;
          a = lhs_form args;
          (A, X, B) = FormLinearSystem lib fespace a ess_tdof_list w b;
          prec = select_preconditioner (pa args) fespace a ess_tdof_list;
          cg = configure_cg prec;
          X' = CGSolver_Mult lib cg A B X;
          w' = RecoverFEMSolution lib fespace a X' b w;
          u = Varadhan (t_param args) w';
          exact_dist = select_exact_dist (mesh_file args);
          errors = (case exact_dist of
                      None \<Rightarrow> None
                    | Some e \<Rightarrow> Some (ComputeL1Error lib fespace u e, ComputeMaxError lib fespace u e));
          u_error = (case exact_dist of
                       None \<Rightarrow> None
                     | Some e \<Rightarrow>
                         (let p = ProjectCoefficient lib fespace e
                          in Some (map (\<lambda>i. \<bar>p ! i - u ! i\<bar>) [0..<length u])))
      in \<lparr>d_pmesh = pmesh, d_fec = fec, d_order = order', d_fespace = fespace,
          d_ess_tdof_list = ess_tdof_list, d_w_bc = w, d_b = b, d_a = a,
          d_system = (A, X, B), d_cg = cg, d_X = X', d_w = w', d_u = u,
          d_exact_dist = exact_dist, d_errors = errors, d_u_error = u_error\<rparr>)"

text \<open>
  What process \<^verbatim>\<open>myid\<close> writes and which library calls with an effect it makes after the
  options are parsed. The rank in the names of the two files is left out.
\<close>

definition distance_trace :: "int \<Rightarrow> distance_options \<Rightarrow> distance_vars \<Rightarrow> event list" where
  "distance_trace myid args vars =
     (if myid = 0 then [PrintOptions] else []) @
     (if myid = 0 then [Device_Print] else []) @
     (case d_fec vars of
        OwnFEC name \<Rightarrow> (if myid = 0 then [Print_isoparametric name] else [])
      | _ \<Rightarrow> []) @
     (if myid = 0 then [Print_number_of_unknowns (GetTrueVSize (d_fespace vars))] else []) @
     [Assemble_BilinearForm (d_a vars), Solve_CG (d_cg vars)] @
     (case d_errors vars of
        Some (l1, linf) \<Rightarrow> (if myid = 0 then [Print_L1_error l1, Print_Linf_error linf] else [])
      | None \<Rightarrow> []) @
     [Write_file ''mesh'', Write_file ''sol''] @
     (if visualization args
      then [GLVis ''w'', GLVis ''u''] @
           (case d_exact_dist vars of Some e \<Rightarrow> [GLVis ''|u - d|''] | None \<Rightarrow> [])
      else []) @
     [ParaView_Save, MPI_Finalize]"

text \<open>
  \<^verbatim>\<open>main\<close> on process \<^verbatim>\<open>myid\<close>: the value it returns and its trace. \<^verbatim>\<open>Parse\<close> gives
  \<^verbatim>\<open>None\<close> when \<^verbatim>\<open>args.Good()\<close> is false, and the parsed options otherwise.
\<close>

definition distance_main :: "distance_options library \<Rightarrow> int \<Rightarrow> string list \<Rightarrow> int \<times> event list" where
  "distance_main lib myid argv =
     (case Parse lib distance_defaults argv of
        None \<Rightarrow> (1, (if myid = 0 then [PrintUsage] else []) @ [MPI_Finalize])
      | Some args \<Rightarrow> (0, distance_trace myid args (distance_solve lib args)))"

text \<open>The program run on \<^verbatim>\<open>num_procs\<close> processes, ranks \<^verbatim>\<open>0\<close> to \<^verbatim>\<open>num_procs - 1\<close>.\<close>

definition distance_job :: "distance_options library \<Rightarrow> nat \<Rightarrow> string list \<Rightarrow> (int \<times> event list) list" where
  "distance_job lib num_procs argv = map (\<lambda>myid. distance_main lib (int myid) argv) [0..<num_procs]"

section \<open>exAdvection.cpp: \<^verbatim>\<open>main\<close>\<close>

record advection_options =
  adv_order :: int
  adv_cutsize :: int
  adv_N :: int

text \<open>The values of \<^verbatim>\<open>order\<close>, \<^verbatim>\<open>cutsize\<close> and \<^verbatim>\<open>N\<close> before \<^verbatim>\<open>args.Parse()\<close>.\<close>

definition advection_defaults :: advection_options where
  "advection_defaults = \<lparr>adv_order = 1, adv_cutsize = 1, adv_N = 20\<rparr>"

record advection_vars =
  a_mesh :: Mesh
  a_fespace :: FiniteElementSpace
  a_b :: LinearForm
  a_b_vector :: "real list"
  a_a :: BilinearForm
  a_A :: Operator
  a_x_projected :: "real list"
  a_x :: "real list"
  a_norm :: real

text \<open>
  Lines 40 to 95. \<^verbatim>\<open>MFEM_USE_SUITESPARSE\<close> is the macro that selects the solver when the
  program is compiled. Both solvers take \<^verbatim>\<open>x\<close> by reference and leave the solution in it.
\<close>

definition exAdvection_solve :: "bool \<Rightarrow> advection_options library \<Rightarrow> advection_options \<Rightarrow> advection_vars" where
  "exAdvection_solve MFEM_USE_SUITESPARSE lib args =
     (let mesh = MakeMesh1D lib (adv_N args) 1;
          dimn = Dimension mesh;
          fec = DG_FECollection (adv_order args) dimn;
          fespace = MakeSpace lib mesh fec;
          f = FunctionCoefficient f_exact;
          u = FunctionCoefficient u_exact;
          velocity = VectorFunctionCoefficient dimn velocity_function;
          b = \<lparr>lform_domain = [new_AdvDomainLFIntegrator f],
               lform_bdr_face = [new_BoundaryAdvectIntegrator u velocity]\<rparr>;
          b_vector = LinearForm_Assemble lib fespace b;
          a = \<lparr>bf_assembly = LEGACY, bf_static_cond = False,
               bf_domain = [TransposeIntegrator (AdvectionIntegrator velocity (- 1.0))],
               bf_interior_face = [TransposeIntegrator (new_DGFaceIntegrator velocity)],
               bf_bdr_face = [TransposeIntegrator (new_DGFaceIntegrator velocity)]\<rparr>;
          A = BilinearForm_Assemble lib fespace a;
          x = ProjectCoefficient lib fespace u;
          x' = (if MFEM_USE_SUITESPARSE
                then UMFPackSolver_Mult lib A b_vector x
                else (let M = GSSmoother A
                      in GMRES lib A M b_vector x 1 1000 200 (1 / 10 ^ 60) (1 / 10 ^ 60)));
          nrm = ComputeL2Error lib fespace x' u
      in \<lparr>a_mesh = mesh, a_fespace = fespace, a_b = b, a_b_vector = b_vector, a_a = a, a_A = A,
          a_x_projected = x, a_x = x', a_norm = nrm\<rparr>)"

definition exAdvection_trace :: "bool \<Rightarrow> advection_vars \<Rightarrow> event list" where
  "exAdvection_trace MFEM_USE_SUITESPARSE vars =
     [PrintOptions,
      Print_number_of_elements (GetNE (a_mesh vars)),
      Write_file ''square_disc_mesh.vtk'',
      Print_number_of_unknowns (GetTrueVSize (a_fespace vars)),
      Assemble_LinearForm (a_b vars),
      Assemble_BilinearForm (a_a vars),
      (if MFEM_USE_SUITESPARSE then Solve_UMFPack else Solve_GMRES),
      Write_file ''dgAdvection.vtk'',
      Print_solution (a_x vars),
      Print_mesh_size (1.0 / real (GetNE (a_mesh vars))),
      Print_solution_norm (a_norm vars)]"

definition exAdvection_main :: "bool \<Rightarrow> advection_options library \<Rightarrow> string list \<Rightarrow> int \<times> event list" where
  "exAdvection_main MFEM_USE_SUITESPARSE lib argv =
     (case Parse lib advection_defaults argv of
        None \<Rightarrow> (1, [PrintUsage])
      | Some args \<Rightarrow>
          (0, exAdvection_trace MFEM_USE_SUITESPARSE (exAdvection_solve MFEM_USE_SUITESPARSE lib args)))"


section \<open>Events of assembly and solution\<close>

text \<open>The events of a trace that assemble a form or solve a linear system.\<close>

fun assembles_or_solves :: "event \<Rightarrow> bool" where
  "assembles_or_solves (Assemble_LinearForm b) = True"
| "assembles_or_solves (Assemble_BilinearForm a) = True"
| "assembles_or_solves Solve_GMRES = True"
| "assembles_or_solves Solve_UMFPack = True"
| "assembles_or_solves (Solve_CG cg) = True"
| "assembles_or_solves e = False"

section \<open>A configuration on the unit segment\<close>

text \<open>
  Concrete elements, faces and a concrete instance of the library, on which the
  definitions above can be evaluated: linear elements on a uniform mesh of the segment
  from 0 to 1, whose faces are points with the one-point quadrature rule of weight 1.
\<close>

definition origin :: IntegrationPoint where
  "origin = \<lparr>ip_x = 0, ip_y = 0, ip_z = 0, ip_weight = 1\<rparr>"

definition point_rule :: IntegrationRule where
  "point_rule = [origin]"

definition segment_P1 :: FiniteElement where
  "segment_P1 =
     \<lparr>GetDim = 1, GetDof = 2, GetOrder = 1, Space = Pk, GetGeomType = 1,
      CalcShape = (\<lambda>ip i. if i = 0 then 1 - ip_x ip else ip_x ip),
      CalcPhysShape = (\<lambda>T i. if i = 0 then 1 - ip_x (IntPoint T) else ip_x (IntPoint T))\<rparr>"

text \<open>Element \<open>k\<close> of the mesh with \<open>n\<close> elements.\<close>

definition segment_element :: "nat \<Rightarrow> nat \<Rightarrow> ElementTransformation" where
  "segment_element n k =
     \<lparr>IntPoint = origin, OrderW = 0, ElementNo = int k,
      Transform = (\<lambda>ip. [(real k + ip_x ip) / real n])\<rparr>"

text \<open>
  In the mesh with two elements: the face between them, seen from element 0 at its right
  end and from element 1 at its left end, and the two boundary faces.
\<close>

definition interior_face :: FaceElementTransformations where
  "interior_face =
     \<lparr>Elem1No = 0, Elem2No = 1, Elem1 = segment_element 2 0, Elem2 = segment_element 2 1,
      Face = segment_element 2 0,
      Loc1 = (\<lambda>ip. ip\<lparr>ip_x := 1\<rparr>), Loc2 = (\<lambda>ip. ip\<lparr>ip_x := 0\<rparr>), FaceGeom = 0\<rparr>"

definition right_boundary_face :: FaceElementTransformations where
  "right_boundary_face =
     \<lparr>Elem1No = 1, Elem2No = - 1, Elem1 = segment_element 2 1, Elem2 = segment_element 2 1,
      Face = segment_element 2 1,
      Loc1 = (\<lambda>ip. ip\<lparr>ip_x := 1\<rparr>), Loc2 = (\<lambda>ip. ip), FaceGeom = 0\<rparr>"

definition left_boundary_face :: FaceElementTransformations where
  "left_boundary_face =
     \<lparr>Elem1No = 0, Elem2No = - 1, Elem1 = segment_element 2 0, Elem2 = segment_element 2 0,
      Face = segment_element 2 0,
      Loc1 = (\<lambda>ip. ip\<lparr>ip_x := 0\<rparr>), Loc2 = (\<lambda>ip. ip), FaceGeom = 0\<rparr>"

text \<open>The velocity of \<^verbatim>\<open>main\<close> in one dimension, and the opposite one.\<close>

definition leftward :: VectorCoefficient where
  "leftward = VectorFunctionCoefficient 1 velocity_function"

definition rightward :: VectorCoefficient where
  "rightward = (\<lambda>T ip k. 1)"

definition no_garbage :: "nat \<Rightarrow> real" where
  "no_garbage = (\<lambda>k. 0)"

definition point_rules :: "nat \<Rightarrow> int \<Rightarrow> IntegrationRule" where
  "point_rules geom ord = point_rule"

definition segment_mesh :: "nat \<Rightarrow> Mesh" where
  "segment_mesh n =
     \<lparr>Dimension = 1, GetNE = n, GetNodes = None, bdr_attributes_Size = 2, bdr_attributes_Max = 2\<rparr>"

definition segment_space :: "bool \<Rightarrow> Mesh \<Rightarrow> FiniteElementCollection \<Rightarrow> FiniteElementSpace" where
  "segment_space tensor mesh fec =
     \<lparr>fes_mesh = mesh, fes_fec = fec, GetVSize = GetNE mesh + 1, GetTrueVSize = GetNE mesh + 1,
      GetEssentialTrueDofs = (\<lambda>marker. [0, GetNE mesh]),
      GetBdrDofs = (\<lambda>marker. [0, GetNE mesh]),
      GetDofPoint = (\<lambda>d. (segment_element (GetNE mesh) d, origin)),
      UsesTensorBasis = tensor\<rparr>"

text \<open>
  The instance of the library: \<open>parse\<close> stands for the option parser and \<open>tensor\<close> for
  the answer of \<^verbatim>\<open>UsesTensorBasis\<close>; the linear solvers of this instance hand back the
  vector of ones, and the error norms the sum and the maximum of the absolute nodal
  differences.
\<close>

definition nodal_values :: "FiniteElementSpace \<Rightarrow> Coefficient \<Rightarrow> real list" where
  "nodal_values fes c = map (\<lambda>d. case GetDofPoint fes d of (T, ip) \<Rightarrow> c T ip) [0..<GetVSize fes]"

definition segment_library :: "('opts \<Rightarrow> string list \<Rightarrow> 'opts option) \<Rightarrow> bool \<Rightarrow> 'opts library" where
  "segment_library parse tensor =
     \<lparr>Parse = parse,
      MakeMesh1D = (\<lambda>n sx. segment_mesh (nat n)),
      MakeParMesh = (\<lambda>file rs par. segment_mesh (2 ^ (nat rs + par))),
      MakeSpace = segment_space tensor,
      LinearForm_Assemble = (\<lambda>fes b. replicate (GetVSize fes) 0),
      BilinearForm_Assemble = (\<lambda>fes a i j. if i = j then 1 else 0),
      ProjectCoefficient = nodal_values,
      GMRES = (\<lambda>A M b x print_iter max_num_iter m rtol atol. replicate (length x) 1),
      UMFPackSolver_Mult = (\<lambda>A b x. replicate (length x) 1),
      ComputeL2Error = (\<lambda>fes x c. sqrt (sum_list (map (\<lambda>(a, b). (a - b) ^ 2) (zip x (nodal_values fes c))))),
      ComputeL1Error = (\<lambda>fes x c. sum_list (map (\<lambda>(a, b). \<bar>a - b\<bar>) (zip x (nodal_values fes c)))),
      ComputeMaxError = (\<lambda>fes x c. fold max (map (\<lambda>(a, b). \<bar>a - b\<bar>) (zip x (nodal_values fes c))) 0),
      FormLinearSystem = (\<lambda>fes a ess w b. ((\<lambda>i j. if i = j then 1 else 0), w, b)),
      CGSolver_Mult = (\<lambda>cg A B X. replicate (length X) 1),
      RecoverFEMSolution = (\<lambda>fes a X b w. X)\<rparr>"

text \<open>
  Two command lines for \<^verbatim>\<open>distance\<close>: the first sample run of the file header, and one
  with an option that does not exist. The parser of the instance knows these two and the
  empty command line.
\<close>

definition scenario_A_argv :: "string list" where
  "scenario_A_argv = [''-m'', ''../data/inline-segment.mesh'', ''-rs'', ''3'', ''-t'', ''0.5'']"

definition scenario_A_options :: distance_options where
  "scenario_A_options =
     distance_defaults\<lparr>mesh_file := ''../data/inline-segment.mesh'', rs_levels := 3, t_param := 0.5\<rparr>"

definition bad_argv :: "string list" where
  "bad_argv = [''--no-such-option'']"

definition distance_parser :: "distance_options \<Rightarrow> string list \<Rightarrow> distance_options option" where
  "distance_parser defaults argv =
     (if argv = [] then Some defaults
      else if argv = scenario_A_argv
      then Some (defaults\<lparr>mesh_file := ''../data/inline-segment.mesh'', rs_levels := 3, t_param := 0.5\<rparr>)
      else None)"

definition advection_parser :: "advection_options \<Rightarrow> string list \<Rightarrow> advection_options option" where
  "advection_parser defaults argv = (if argv = [] then Some defaults else None)"

definition scenario_A_vars :: distance_vars where
  "scenario_A_vars = distance_solve (segment_library distance_parser True) scenario_A_options"

text \<open>A domain integrator with no delta coefficient, and one with the constant 3.\<close>

definition no_delta_integrator :: AdvDomainLFIntegrator where
  "no_delta_integrator =
     \<lparr>lf_IntRule = None, lf_Q = ConstantCoefficient 1, lf_delta = None, lf_oa = 1, lf_ob = 1\<rparr>"

definition delta_integrator :: AdvDomainLFIntegrator where
  "delta_integrator =
     \<lparr>lf_IntRule = None, lf_Q = ConstantCoefficient 1, lf_delta = Some (\<lambda>T ip. 3), lf_oa = 1, lf_ob = 1\<rparr>"

text \<open>A boundary integrator whose boundary value is zero, on the inflow side.\<close>

definition zero_inflow_integrator :: BoundaryAdvectIntegrator where
  "zero_inflow_integrator =
     \<lparr>baf_IntRule = None, baf_uD = ConstantCoefficient 0, baf_u = leftward\<rparr>"

definition exp_inflow_integrator :: BoundaryAdvectIntegrator where
  "exp_inflow_integrator =
     \<lparr>baf_IntRule = None, baf_uD = FunctionCoefficient u_exact, baf_u = leftward\<rparr>"


text \<open>The face integrator of \<^verbatim>\<open>main\<close>, with \<^verbatim>\<open>IntRule\<close> left \<^verbatim>\<open>NULL\<close>.\<close>

definition upwind_face_integrator :: DGFaceIntegrator where
  "upwind_face_integrator = \<lparr>dgf_IntRule = None, dgf_u = leftward\<rparr>"

section \<open>The face integrator\<close>

subsection \<open>What the loops add to an entry\<close>

lemma entry_add_entry:
  "entry (add_entry M i j v) r c = entry M r c + (if r = i \<and> c = j then v else 0)"
  by (simp add: add_entry_def)

lemma size_add_entry: "Height (add_entry M i j v) = Height M" "Width (add_entry M i j v) = Width M"
  by (simp_all add: add_entry_def)

lemma entry_fold_add:
  "entry (fold (\<lambda>j M. add_entry M (R j) (C j) (V j)) ys M) r c
     = entry M r c + (\<Sum>j\<leftarrow>ys. if R j = r \<and> C j = c then V j else 0)"
  by (induction ys arbitrary: M) (simp_all add: entry_add_entry)

lemma entry_fold_fold_add:
  "entry (fold (\<lambda>i. fold (\<lambda>j M. add_entry M (R i j) (C i j) (V i j)) ys) xs M) r c
     = entry M r c + (\<Sum>i\<leftarrow>xs. \<Sum>j\<leftarrow>ys. if R i j = r \<and> C i j = c then V i j else 0)"
  by (induction xs arbitrary: M) (simp_all add: entry_fold_add)

lemma sum_list_delta:
  "(\<Sum>i\<leftarrow>[0..<n]. if k + i = r then f i else (0::real)) = (if k \<le> r \<and> r < k + n then f (r - k) else 0)"
  by (induction n) auto

lemma sum_list_zero: "(\<Sum>i\<leftarrow>xs. (0::real)) = 0"
  by (induction xs) auto

lemma sum_list_delta2:
  "(\<Sum>i\<leftarrow>[0..<n]. \<Sum>j\<leftarrow>[0..<m]. if k + i = r \<and> l + j = c then f i j else (0::real))
     = (if k \<le> r \<and> r < k + n \<and> l \<le> c \<and> c < l + m then f (r - k) (c - l) else 0)"
proof -
  have "(\<Sum>j\<leftarrow>[0..<m]. if k + i = r \<and> l + j = c then f i j else (0::real))
          = (if k + i = r then (if l \<le> c \<and> c < l + m then f i (c - l) else 0) else 0)" for i
    using sum_list_delta [where k=l and r=c and f="f i" and n=m] by (simp add: sum_list_zero)
  then show ?thesis
    using sum_list_delta [where k=k and r=r and f="\<lambda>i. if l \<le> c \<and> c < l + m then f i (c - l) else 0" and n=n]
    by simp
qed

lemma entry_block_rows_outer:
  "entry (for_loop n (\<lambda>i. for_loop m (\<lambda>j M. add_entry M (k + i) (l + j) (f i j))) M) r c
     = entry M r c + (if k \<le> r \<and> r < k + n \<and> l \<le> c \<and> c < l + m then f (r - k) (c - l) else 0)"
  unfolding for_loop_def entry_fold_fold_add sum_list_delta2 ..

lemma entry_block_cols_outer:
  "entry (for_loop m (\<lambda>j. for_loop n (\<lambda>i M. add_entry M (k + i) (l + j) (f i j))) M) r c
     = entry M r c + (if k \<le> r \<and> r < k + n \<and> l \<le> c \<and> c < l + m then f (r - k) (c - l) else 0)"
proof -
  have "(\<Sum>j\<leftarrow>[0..<m]. \<Sum>i\<leftarrow>[0..<n]. if k + i = r \<and> l + j = c then f i j else (0::real))
       = (\<Sum>j\<leftarrow>[0..<m]. \<Sum>i\<leftarrow>[0..<n]. if l + j = c \<and> k + i = r then f i j else (0::real))"
    by (simp add: conj_commute)
  also have "\<dots> = (if l \<le> c \<and> c < l + m \<and> k \<le> r \<and> r < k + n then f (r - k) (c - l) else 0)"
    using sum_list_delta2 [where n=m and m=n and k=l and r=c and l=k and c=r and f="\<lambda>j i. f i j"] by simp
  finally show ?thesis
    unfolding for_loop_def entry_fold_fold_add by auto
qed


text \<open>The four double loops of the source, each with its own order of the indices.\<close>

lemma entry_block11:
  "entry (for_loop n (\<lambda>i. for_loop m (\<lambda>j M. add_entry M i j (f i j))) M) r c
     = entry M r c + (if r < n \<and> c < m then f r c else 0)"
  using entry_block_rows_outer [where k=0 and l=0 and f=f and n=n and m=m and M=M and r=r and c=c]
  by simp

lemma entry_block12:
  "entry (for_loop m (\<lambda>i. for_loop n (\<lambda>j M. add_entry M j (l + i) (f i j))) M) r c
     = entry M r c + (if r < n \<and> l \<le> c \<and> c < l + m then f (c - l) r else 0)"
  using entry_block_cols_outer [where k=0 and l=l and f="\<lambda>i j. f j i" and n=n and m=m and M=M and r=r and c=c]
  by simp

lemma entry_block22:
  "entry (for_loop n (\<lambda>i. for_loop m (\<lambda>j M. add_entry M (k + i) (k + j) (f i j))) M) r c
     = entry M r c + (if k \<le> r \<and> r < k + n \<and> k \<le> c \<and> c < k + m then f (r - k) (c - k) else 0)"
  by (rule entry_block_rows_outer)

lemma entry_block21:
  "entry (for_loop m (\<lambda>i. for_loop n (\<lambda>j M. add_entry M (k + j) i (f i j))) M) r c
     = entry M r c + (if k \<le> r \<and> r < k + n \<and> c < m then f c (r - k) else 0)"
  using entry_block_cols_outer [where k=k and l=0 and f="\<lambda>i j. f j i" and n=n and m=m and M=M and r=r and c=c]
  by simp

lemma entry_face_point:
  "entry (face_point u nor0 el1 el2 Trans dimn ndof1 ndof2 ip M) r c
     = entry M r c +
       (let s1 = CalcShape el1 (Loc1 Trans ip);
            s2 = CalcShape el2 (Loc2 Trans ip);
            un = normal_velocity u nor0 dimn (SetIntPoint (Elem1 Trans) (Loc1 Trans ip)) (Loc1 Trans ip);
            w1 = 0.5 * ip_weight ip * (un + \<bar>un\<bar>);
            w2 = 0.5 * ip_weight ip * (un - \<bar>un\<bar>)
        in if r < ndof1
           then (if c < ndof1 then w1 * s1 r * s1 c
                 else if c < ndof1 + ndof2 then - (w1 * s2 (c - ndof1) * s1 r)
                 else 0)
           else if r < ndof1 + ndof2
           then (if c < ndof1 then w2 * s1 c * s2 (r - ndof1)
                 else if c < ndof1 + ndof2 then - (w2 * s2 (r - ndof1) * s2 (c - ndof1))
                 else 0)
           else 0)"
  by (simp add: face_point_def Let_def entry_block11 entry_block12 entry_block22 entry_block21)


lemma size_fold_add:
  "Height (fold (\<lambda>j M. add_entry M (R j) (C j) (V j)) ys M) = Height M"
  "Width (fold (\<lambda>j M. add_entry M (R j) (C j) (V j)) ys M) = Width M"
  by (induction ys arbitrary: M) (simp_all add: size_add_entry)

lemma size_fold_fold_add:
  "Height (fold (\<lambda>i. fold (\<lambda>j M. add_entry M (R i j) (C i j) (V i j)) ys) xs M) = Height M"
  "Width (fold (\<lambda>i. fold (\<lambda>j M. add_entry M (R i j) (C i j) (V i j)) ys) xs M) = Width M"
  by (induction xs arbitrary: M) (simp_all add: size_fold_add)

lemma size_block:
  "Height (for_loop n (\<lambda>i. for_loop m (\<lambda>j M. add_entry M (R i j) (C i j) (V i j))) M) = Height M"
  "Width (for_loop n (\<lambda>i. for_loop m (\<lambda>j M. add_entry M (R i j) (C i j) (V i j))) M) = Width M"
  unfolding for_loop_def by (rule size_fold_fold_add)+

lemma size_face_point:
  "Height (face_point u nor0 el1 el2 Trans dimn ndof1 ndof2 ip M) = Height M"
  "Width (face_point u nor0 el1 el2 Trans dimn ndof1 ndof2 ip M) = Width M"
  by (simp_all add: face_point_def Let_def size_block)

lemma size_fold_face_point:
  "Height (fold (face_point u nor0 el1 el2 Trans dimn ndof1 ndof2) ir M) = Height M"
  "Width (fold (face_point u nor0 el1 el2 Trans dimn ndof1 ndof2) ir M) = Width M"
  by (induction ir arbitrary: M) (simp_all add: size_face_point)

lemma entry_fold_steps:
  assumes "\<And>p M r c. entry (step p M) r c = entry M r c + g p r c"
  shows "entry (fold step ps M) r c = entry M r c + (\<Sum>p\<leftarrow>ps. g p r c)"
  by (induction ps arbitrary: M) (simp_all add: assms)

lemma entry_fold_face_point:
  "entry (fold (face_point u nor0 el1 el2 Trans dimn ndof1 ndof2) ir M) r c
     = entry M r c +
       (\<Sum>ip\<leftarrow>ir.
          let s1 = CalcShape el1 (Loc1 Trans ip);
              s2 = CalcShape el2 (Loc2 Trans ip);
              un = normal_velocity u nor0 dimn (SetIntPoint (Elem1 Trans) (Loc1 Trans ip)) (Loc1 Trans ip);
              w1 = 0.5 * ip_weight ip * (un + \<bar>un\<bar>);
              w2 = 0.5 * ip_weight ip * (un - \<bar>un\<bar>)
          in if r < ndof1
             then (if c < ndof1 then w1 * s1 r * s1 c
                   else if c < ndof1 + ndof2 then - (w1 * s2 (c - ndof1) * s1 r)
                   else 0)
             else if r < ndof1 + ndof2
             then (if c < ndof1 then w2 * s1 c * s2 (r - ndof1)
                   else if c < ndof1 + ndof2 then - (w2 * s2 (r - ndof1) * s2 (c - ndof1))
                   else 0)
             else 0)"
  by (rule entry_fold_steps) (rule entry_face_point)

subsection \<open>One quadrature point\<close>

text \<open>
  C1. At a quadrature point of the face, with \<open>un\<close> the normal velocity there, one pass
  of the loop body adds to the entries of the rows of element 1 (rows below \<open>ndof1\<close>)
  the weight \<open>0.5 * (un + \<bar>un\<bar>)\<close> times the quadrature weight times the two shape values,
  with sign \<open>+\<close> in the columns of element 1 and \<open>-\<close> in those of element 2; and to the
  entries of the rows of element 2 the weight \<open>0.5 * (un - \<bar>un\<bar>)\<close> times the quadrature
  weight times the two shape values, with sign \<open>-\<close> in the columns of element 2 and \<open>+\<close>
  in those of element 1. So where \<open>un > 0\<close> no entry of a row of element 2 changes, and
  where \<open>un < 0\<close> no entry of a row of element 1 changes, the cross block included.
\<close>

theorem face_point_upwind_weights:
  "let s1 = CalcShape el1 (Loc1 Trans ip);
       s2 = CalcShape el2 (Loc2 Trans ip);
       un = normal_velocity u nor0 dimn (SetIntPoint (Elem1 Trans) (Loc1 Trans ip)) (Loc1 Trans ip);
       M' = face_point u nor0 el1 el2 Trans dimn ndof1 ndof2 ip M
   in (\<forall>i<ndof1. \<forall>j<ndof1.
         entry M' i j = entry M i j + 0.5 * (un + \<bar>un\<bar>) * ip_weight ip * s1 i * s1 j)
    \<and> (\<forall>i<ndof2. \<forall>j<ndof1.
         entry M' j (ndof1 + i) = entry M j (ndof1 + i) - 0.5 * (un + \<bar>un\<bar>) * ip_weight ip * s2 i * s1 j)
    \<and> (\<forall>i<ndof2. \<forall>j<ndof2.
         entry M' (ndof1 + i) (ndof1 + j)
           = entry M (ndof1 + i) (ndof1 + j) - 0.5 * (un - \<bar>un\<bar>) * ip_weight ip * s2 i * s2 j)
    \<and> (\<forall>i<ndof1. \<forall>j<ndof2.
         entry M' (ndof1 + j) i = entry M (ndof1 + j) i + 0.5 * (un - \<bar>un\<bar>) * ip_weight ip * s1 i * s2 j)
    \<and> (un > 0 \<longrightarrow> (\<forall>r c. ndof1 \<le> r \<longrightarrow> entry M' r c = entry M r c))
    \<and> (un < 0 \<longrightarrow> (\<forall>r c. r < ndof1 \<longrightarrow> entry M' r c = entry M r c))"
  by (simp add: Let_def entry_face_point)

text \<open>The configuration on the segment, evaluated.\<close>

lemma interior_face_un:
  "normal_velocity leftward nor0 1 (SetIntPoint (Elem1 interior_face) (Loc1 interior_face origin))
     (Loc1 interior_face origin) = - 1"
  "normal_velocity rightward nor0 1 (SetIntPoint (Elem1 interior_face) (Loc1 interior_face origin))
     (Loc1 interior_face origin) = 1"
  by (simp_all add: normal_velocity_def leftward_def rightward_def VectorFunctionCoefficient_def
        velocity_function_def inner_product_def Let_def interior_face_def segment_element_def
        SetIntPoint_def origin_def)

lemma interior_face_shapes:
  "CalcShape segment_P1 (Loc1 interior_face origin) = (\<lambda>i. if i = 0 then 0 else 1)"
  "CalcShape segment_P1 (Loc2 interior_face origin) = (\<lambda>i. if i = 0 then 1 else 0)"
  by (rule ext, simp add: segment_P1_def interior_face_def origin_def)+

lemma entry_zero_matrix: "entry (zero_matrix s) r c = 0"
  by (simp add: zero_matrix_def)

lemma weight_origin: "ip_weight origin = 1"
  by (simp add: origin_def)

theorem face_point_upwind_weights_witness:
  "entry (face_point leftward no_garbage segment_P1 segment_P1 interior_face 1 2 2 origin (zero_matrix 4)) 2 2 = 1
   \<and> entry (face_point leftward no_garbage segment_P1 segment_P1 interior_face 1 2 2 origin (zero_matrix 4)) 2 1 = - 1
   \<and> entry (face_point leftward no_garbage segment_P1 segment_P1 interior_face 1 2 2 origin (zero_matrix 4)) 1 2 = 0
   \<and> entry (face_point leftward no_garbage segment_P1 segment_P1 interior_face 1 2 2 origin (zero_matrix 4)) 1 1 = 0
   \<and> entry (face_point rightward no_garbage segment_P1 segment_P1 interior_face 1 2 2 origin (zero_matrix 4)) 1 1 = 1
   \<and> entry (face_point rightward no_garbage segment_P1 segment_P1 interior_face 1 2 2 origin (zero_matrix 4)) 1 2 = - 1
   \<and> entry (face_point rightward no_garbage segment_P1 segment_P1 interior_face 1 2 2 origin (zero_matrix 4)) 2 2 = 0
   \<and> entry (face_point rightward no_garbage segment_P1 segment_P1 interior_face 1 2 2 origin (zero_matrix 4)) 2 1 = 0"
proof -
  note L = face_point_upwind_weights [of segment_P1 interior_face origin segment_P1 leftward no_garbage 1
             2 2 "zero_matrix 4", unfolded Let_def interior_face_un interior_face_shapes
             entry_zero_matrix weight_origin]
  note R = face_point_upwind_weights [of segment_P1 interior_face origin segment_P1 rightward no_garbage 1
             2 2 "zero_matrix 4", unfolded Let_def interior_face_un interior_face_shapes
             entry_zero_matrix weight_origin]
  have "entry (face_point leftward no_garbage segment_P1 segment_P1 interior_face 1 2 2 origin (zero_matrix 4)) (2 + 0) (2 + 0) = 1"
    using L [THEN conjunct2, THEN conjunct2, THEN conjunct1, rule_format, of 0 0] by simp
  moreover have "entry (face_point leftward no_garbage segment_P1 segment_P1 interior_face 1 2 2 origin (zero_matrix 4)) (2 + 0) 1 = - 1"
    using L [THEN conjunct2, THEN conjunct2, THEN conjunct2, THEN conjunct1, rule_format, of 1 0] by simp
  moreover have "entry (face_point leftward no_garbage segment_P1 segment_P1 interior_face 1 2 2 origin (zero_matrix 4)) 1 c = 0" for c
    using L [THEN conjunct2, THEN conjunct2, THEN conjunct2, THEN conjunct2, THEN conjunct2, rule_format, of 1 c]
    by (simp add: entry_zero_matrix)
  moreover have "entry (face_point rightward no_garbage segment_P1 segment_P1 interior_face 1 2 2 origin (zero_matrix 4)) 1 1 = 1"
    using R [THEN conjunct1, rule_format, of 1 1] by simp
  moreover have "entry (face_point rightward no_garbage segment_P1 segment_P1 interior_face 1 2 2 origin (zero_matrix 4)) 1 (2 + 0) = - 1"
    using R [THEN conjunct2, THEN conjunct1, rule_format, of 0 1] by simp
  moreover have "entry (face_point rightward no_garbage segment_P1 segment_P1 interior_face 1 2 2 origin (zero_matrix 4)) 2 c = 0" for c
    using R [THEN conjunct2, THEN conjunct2, THEN conjunct2, THEN conjunct2, THEN conjunct1, rule_format, of 2 c]
    by (simp add: entry_zero_matrix)
  ultimately show ?thesis by simp
qed


subsection \<open>The whole matrix\<close>

text \<open>
  C4. On an interior face (\<^verbatim>\<open>Elem2No >= 0\<close>) the matrix returned has \<open>ndof1 + ndof2\<close> rows
  and columns, all its entries are zero when the rule has no point, and each of its four
  blocks is the sum over the quadrature points of the terms of one double loop: the block
  of element 1 with itself with sign \<open>+\<close>, the rows of element 1 in the columns of
  element 2 with sign \<open>-\<close>, the block of element 2 with itself with sign \<open>-\<close>, and the
  rows of element 2 in the columns of element 1 with sign \<open>+\<close>.
\<close>

theorem interior_face_matrix_blocks:
  assumes "Elem2No Trans \<ge> 0"
  shows
  "let ndof1 = GetDof el1;
       ndof2 = GetDof el2;
       ir = face_rule IntRules (dgf_IntRule integ) el1 el2 Trans;
       s1 = (\<lambda>ip. CalcShape el1 (Loc1 Trans ip));
       s2 = (\<lambda>ip. CalcShape el2 (Loc2 Trans ip));
       un = (\<lambda>ip. normal_velocity (dgf_u integ) nor0 (GetDim el1)
                     (SetIntPoint (Elem1 Trans) (Loc1 Trans ip)) (Loc1 Trans ip));
       w1 = (\<lambda>ip. 0.5 * ip_weight ip * (un ip + \<bar>un ip\<bar>));
       w2 = (\<lambda>ip. 0.5 * ip_weight ip * (un ip - \<bar>un ip\<bar>));
       elmat = AssembleFaceMatrix IntRules integ nor0 el1 el2 Trans
   in Height elmat = ndof1 + ndof2 \<and> Width elmat = ndof1 + ndof2
    \<and> (ir = [] \<longrightarrow> (\<forall>r c. entry elmat r c = 0))
    \<and> (\<forall>i<ndof1. \<forall>j<ndof1.
          entry elmat i j = (\<Sum>ip\<leftarrow>ir. w1 ip * s1 ip i * s1 ip j))
    \<and> (\<forall>i<ndof2. \<forall>j<ndof1.
          entry elmat j (ndof1 + i) = (\<Sum>ip\<leftarrow>ir. - (w1 ip * s2 ip i * s1 ip j)))
    \<and> (\<forall>i<ndof2. \<forall>j<ndof2.
          entry elmat (ndof1 + i) (ndof1 + j) = (\<Sum>ip\<leftarrow>ir. - (w2 ip * s2 ip i * s2 ip j)))
    \<and> (\<forall>i<ndof1. \<forall>j<ndof2.
          entry elmat (ndof1 + j) i = (\<Sum>ip\<leftarrow>ir. w2 ip * s1 ip i * s2 ip j))"
  using assms
  by (simp add: AssembleFaceMatrix_def Let_def entry_fold_face_point size_fold_face_point
        entry_zero_matrix zero_matrix_def)


lemma segment_P1_sizes: "GetDof segment_P1 = 2" "GetDim segment_P1 = 1"
  by (simp_all add: segment_P1_def)

lemma face_rule_point_rules: "face_rule point_rules None el1 el2 Trans = [origin]"
  by (simp add: face_rule_def point_rules_def point_rule_def)

theorem interior_face_matrix_blocks_witness:
  "Elem2No interior_face \<ge> 0
   \<and> Height (AssembleFaceMatrix point_rules upwind_face_integrator no_garbage segment_P1 segment_P1 interior_face) = 4
   \<and> Width (AssembleFaceMatrix point_rules upwind_face_integrator no_garbage segment_P1 segment_P1 interior_face) = 4
   \<and> entry (AssembleFaceMatrix point_rules upwind_face_integrator no_garbage segment_P1 segment_P1 interior_face) 1 1 = 0
   \<and> entry (AssembleFaceMatrix point_rules upwind_face_integrator no_garbage segment_P1 segment_P1 interior_face) 1 2 = 0
   \<and> entry (AssembleFaceMatrix point_rules upwind_face_integrator no_garbage segment_P1 segment_P1 interior_face) 2 2 = 1
   \<and> entry (AssembleFaceMatrix point_rules upwind_face_integrator no_garbage segment_P1 segment_P1 interior_face) 2 1 = - 1"
proof -
  have E: "Elem2No interior_face \<ge> 0" by (simp add: interior_face_def)
  note T = interior_face_matrix_blocks [OF E, where ?el1.0 = segment_P1 and ?el2.0 = segment_P1
             and IntRules = point_rules and integ = upwind_face_integrator and ?nor0.0 = no_garbage,
             unfolded Let_def]
  have i: "dgf_IntRule upwind_face_integrator = None" "dgf_u upwind_face_integrator = leftward"
    by (simp_all add: upwind_face_integrator_def)
  note T' = T [unfolded i segment_P1_sizes face_rule_point_rules, simplified,
               unfolded interior_face_un [unfolded One_nat_def] interior_face_shapes weight_origin]
  have "entry (AssembleFaceMatrix point_rules upwind_face_integrator no_garbage segment_P1 segment_P1 interior_face) 1 1 = 0"
    using T' [THEN conjunct2, THEN conjunct2, THEN conjunct1, rule_format, of 1 1] by simp
  moreover have "entry (AssembleFaceMatrix point_rules upwind_face_integrator no_garbage segment_P1 segment_P1 interior_face) 1 (2 + 0) = 0"
    using T' [THEN conjunct2, THEN conjunct2, THEN conjunct2, THEN conjunct1, rule_format, of 0 1] by (simp add: numeral_2_eq_2)
  moreover have "entry (AssembleFaceMatrix point_rules upwind_face_integrator no_garbage segment_P1 segment_P1 interior_face) (2 + 0) (2 + 0) = 1"
    using T' [THEN conjunct2, THEN conjunct2, THEN conjunct2, THEN conjunct2, THEN conjunct1, rule_format, of 0 0] by (simp add: numeral_2_eq_2)
  moreover have "entry (AssembleFaceMatrix point_rules upwind_face_integrator no_garbage segment_P1 segment_P1 interior_face) (2 + 0) 1 = - 1"
    using T' [THEN conjunct2, THEN conjunct2, THEN conjunct2, THEN conjunct2, THEN conjunct2, rule_format, of 1 0] by (simp add: numeral_2_eq_2)
  ultimately show ?thesis using E T' [THEN conjunct1] T' [THEN conjunct2, THEN conjunct1] by simp
qed


subsection \<open>Boundary faces\<close>

lemma length_Vector_Add: "length (Vector_Add v w shape) = length v"
  by (simp add: Vector_Add_def)

lemma nth_Vector_Add: "i < length v \<Longrightarrow> Vector_Add v w shape ! i = v ! i + w * shape i"
  by (simp add: Vector_Add_def)

lemma length_fold_bdr_point:
  "length (fold (bdr_point integ nor0 el Tr dimn) ir v) = length v"
  by (induction ir arbitrary: v) (simp_all add: bdr_point_def Let_def length_Vector_Add)

lemma nth_fold_bdr_point:
  "i < length v \<Longrightarrow>
     fold (bdr_point integ nor0 el Tr dimn) ir v ! i
       = v ! i + (\<Sum>ip\<leftarrow>ir. bdr_weight integ nor0 dimn Tr ip * CalcShape el (Loc1 Tr ip) i)"
proof (induction ir arbitrary: v)
  case Nil
  then show ?case by simp
next
  case (Cons ip ir)
  have len: "i < length (bdr_point integ nor0 el Tr dimn ip v)"
    using Cons.prems by (simp add: bdr_point_def Let_def length_Vector_Add)
  have step: "bdr_point integ nor0 el Tr dimn ip v ! i
                = v ! i + bdr_weight integ nor0 dimn Tr ip * CalcShape el (Loc1 Tr ip) i"
    using Cons.prems by (simp add: bdr_point_def Let_def nth_Vector_Add)
  show ?case
    using Cons.IH [OF len] step by simp
qed

lemma upwind_factor_nonzero: "bdr_upwind_factor un \<noteq> 0 \<longleftrightarrow> un < 0"
  by (auto simp add: bdr_upwind_factor_def abs_if)

lemma bdr_weight_eq:
  "bdr_weight integ nor0 dimn Tr ip
     = - 0.5 * (normal_velocity (baf_u integ) nor0 dimn (Elem1 Tr) (Loc1 Tr ip)
                - \<bar>normal_velocity (baf_u integ) nor0 dimn (Elem1 Tr) (Loc1 Tr ip)\<bar>)
       * (ip_weight ip * baf_uD integ (Elem1 Tr) (Loc1 Tr ip))"
  by (simp add: bdr_weight_def bdr_upwind_factor_def Let_def)

lemma bdr_weight_nonzero:
  "bdr_weight integ nor0 dimn Tr ip \<noteq> 0 \<longleftrightarrow>
     normal_velocity (baf_u integ) nor0 dimn (Elem1 Tr) (Loc1 Tr ip) < 0
     \<and> ip_weight ip \<noteq> 0 \<and> baf_uD integ (Elem1 Tr) (Loc1 Tr ip) \<noteq> 0"
  using upwind_factor_nonzero [of "normal_velocity (baf_u integ) nor0 dimn (Elem1 Tr) (Loc1 Tr ip)"]
  by (simp add: bdr_weight_def Let_def)

lemma boundary_face_matrix_size:
  assumes "Elem2No Tr < 0"
  shows "Height (AssembleFaceMatrix IntRules integ nor0 el el2 Tr) = GetDof el"
    and "Width (AssembleFaceMatrix IntRules integ nor0 el el2 Tr) = GetDof el"
  using assms
  by (simp_all add: AssembleFaceMatrix_def Let_def size_fold_face_point zero_matrix_def)

lemma boundary_face_matrix_block:
  assumes "Elem2No Tr < 0" and "i < GetDof el" and "j < GetDof el"
  shows "entry (AssembleFaceMatrix IntRules integ nor0 el el2 Tr) i j
           = (\<Sum>ip\<leftarrow>face_rule IntRules (dgf_IntRule integ) el el2 Tr.
                0.5 * ip_weight ip
                  * (normal_velocity (dgf_u integ) nor0 (GetDim el)
                       (SetIntPoint (Elem1 Tr) (Loc1 Tr ip)) (Loc1 Tr ip)
                     + \<bar>normal_velocity (dgf_u integ) nor0 (GetDim el)
                         (SetIntPoint (Elem1 Tr) (Loc1 Tr ip)) (Loc1 Tr ip)\<bar>)
                  * CalcShape el (Loc1 Tr ip) i * CalcShape el (Loc1 Tr ip) j)"
  using assms
  by (simp add: AssembleFaceMatrix_def Let_def entry_fold_face_point entry_zero_matrix)

lemma boundary_face_matrix_outside:
  assumes "Elem2No Tr < 0" and "GetDof el \<le> r \<or> GetDof el \<le> c"
  shows "entry (AssembleFaceMatrix IntRules integ nor0 el el2 Tr) r c = 0"
proof -
  have "\<not> (r < GetDof el \<and> c < GetDof el)"
    using assms(2) by auto
  then show ?thesis
    using assms(1)
    by (cases "r < GetDof el")
       (simp_all add: AssembleFaceMatrix_def Let_def entry_fold_face_point entry_zero_matrix
          sum_list_zero)
qed

lemma boundary_face_vector:
  "length (AssembleRHSElementVect_face IntRules rhs nor0 el Tr) = GetDof el"
  "i < GetDof el \<Longrightarrow>
     AssembleRHSElementVect_face IntRules rhs nor0 el Tr ! i
       = (\<Sum>ip\<leftarrow>(case baf_IntRule rhs of Some r \<Rightarrow> r | None \<Rightarrow> IntRules (FaceGeom Tr) (bdr_order el Tr)).
            bdr_weight rhs nor0 (GetDim el) Tr ip * CalcShape el (Loc1 Tr ip) i)"
  by (simp_all add: AssembleRHSElementVect_face_def Let_def length_fold_bdr_point nth_fold_bdr_point)


text \<open>
  C3, as amended. On a boundary face (\<^verbatim>\<open>Elem2No < 0\<close>) \<^verbatim>\<open>AssembleFaceMatrix\<close> takes
  \<open>ndof2 = 0\<close>: the matrix has \<open>ndof1\<close> rows and columns, its entries are the sums of the
  block of element 1 with itself, and nothing is written outside that block. The vector
  of \<^verbatim>\<open>BoundaryAdvectIntegrator::AssembleRHSElementVect\<close> has \<open>ndof\<close> entries, entry \<open>i\<close>
  being the sum over the quadrature points of the weight
  \<open>- 0.5 * (un - \<bar>un\<bar>) * (ip.weight * uD)\<close> times shape value \<open>i\<close>. The upwind factor
  \<open>- 0.5 * (un - \<bar>un\<bar>)\<close> is nonzero exactly when \<open>un < 0\<close>; the weight is nonzero exactly
  when \<open>un < 0\<close> and neither the quadrature weight nor the boundary value \<open>uD\<close> at the
  point is zero.
\<close>

theorem boundary_face_assembly:
  assumes "Elem2No Tr < 0"
  shows
  "(let ndof1 = GetDof el;
        ir = face_rule IntRules (dgf_IntRule integ) el el2 Tr;
        s1 = (\<lambda>ip. CalcShape el (Loc1 Tr ip));
        un = (\<lambda>ip. normal_velocity (dgf_u integ) nor0 (GetDim el)
                      (SetIntPoint (Elem1 Tr) (Loc1 Tr ip)) (Loc1 Tr ip));
        elmat = AssembleFaceMatrix IntRules integ nor0 el el2 Tr
    in Height elmat = ndof1 \<and> Width elmat = ndof1
     \<and> (\<forall>i<ndof1. \<forall>j<ndof1.
           entry elmat i j
             = (\<Sum>ip\<leftarrow>ir. 0.5 * ip_weight ip * (un ip + \<bar>un ip\<bar>) * s1 ip i * s1 ip j))
     \<and> (\<forall>r c. ndof1 \<le> r \<or> ndof1 \<le> c \<longrightarrow> entry elmat r c = 0))
   \<and>
   (let ndof = GetDof el;
        ir = (case baf_IntRule rhs of
                Some r \<Rightarrow> r
              | None \<Rightarrow> IntRules (FaceGeom Tr) (bdr_order el Tr));
        un = (\<lambda>ip. normal_velocity (baf_u rhs) nor0 (GetDim el) (Elem1 Tr) (Loc1 Tr ip));
        uD = (\<lambda>ip. baf_uD rhs (Elem1 Tr) (Loc1 Tr ip));
        w = (\<lambda>ip. - 0.5 * (un ip - \<bar>un ip\<bar>) * (ip_weight ip * uD ip));
        elvect = AssembleRHSElementVect_face IntRules rhs nor0 el Tr
    in length elvect = ndof
     \<and> (\<forall>i<ndof. elvect ! i = (\<Sum>ip\<leftarrow>ir. w ip * CalcShape el (Loc1 Tr ip) i))
     \<and> (\<forall>ip. - 0.5 * (un ip - \<bar>un ip\<bar>) \<noteq> 0 \<longleftrightarrow> un ip < 0)
     \<and> (\<forall>ip. w ip \<noteq> 0 \<longleftrightarrow> un ip < 0 \<and> ip_weight ip \<noteq> 0 \<and> uD ip \<noteq> 0))"
proof -
  have factor: "- 0.5 * (x - \<bar>x\<bar>) \<noteq> 0 \<longleftrightarrow> x < 0" for x :: real
    using upwind_factor_nonzero [of x] by (simp add: bdr_upwind_factor_def)
  have weight: "- 0.5 * (x - \<bar>x\<bar>) * (q * d) \<noteq> 0 \<longleftrightarrow> x < 0 \<and> q \<noteq> 0 \<and> d \<noteq> 0" for x q d :: real
    using factor [of x] by simp
  show ?thesis
    unfolding Let_def
    using boundary_face_matrix_size [OF assms] boundary_face_matrix_block [OF assms]
      boundary_face_matrix_outside [OF assms] boundary_face_vector factor weight
    by (simp add: bdr_weight_eq)
qed


lemma right_boundary_un:
  "normal_velocity leftward nor0 1 (Elem1 right_boundary_face) (Loc1 right_boundary_face origin) = - 1"
  "normal_velocity leftward nor0 1 (SetIntPoint (Elem1 right_boundary_face) (Loc1 right_boundary_face origin))
     (Loc1 right_boundary_face origin) = - 1"
  by (simp_all add: normal_velocity_def leftward_def VectorFunctionCoefficient_def
        velocity_function_def inner_product_def Let_def right_boundary_face_def segment_element_def
        SetIntPoint_def origin_def)

lemma left_boundary_un:
  "normal_velocity leftward nor0 1 (Elem1 left_boundary_face) (Loc1 left_boundary_face origin) = 1"
  "normal_velocity leftward nor0 1 (SetIntPoint (Elem1 left_boundary_face) (Loc1 left_boundary_face origin))
     (Loc1 left_boundary_face origin) = 1"
  by (simp_all add: normal_velocity_def leftward_def VectorFunctionCoefficient_def
        velocity_function_def inner_product_def Let_def left_boundary_face_def segment_element_def
        SetIntPoint_def origin_def)

lemma boundary_shapes:
  "CalcShape segment_P1 (Loc1 right_boundary_face origin) = (\<lambda>i. if i = 0 then 0 else 1)"
  "CalcShape segment_P1 (Loc1 left_boundary_face origin) = (\<lambda>i. if i = 0 then 1 else 0)"
  by (rule ext, simp add: segment_P1_def right_boundary_face_def left_boundary_face_def origin_def)+

lemma exp_inflow_value:
  "baf_uD exp_inflow_integrator (Elem1 right_boundary_face) (Loc1 right_boundary_face origin) = exp 1"
  by (simp add: exp_inflow_integrator_def FunctionCoefficient_def u_exact_def right_boundary_face_def
        segment_element_def origin_def)

lemma inflow_integrator_fields:
  "baf_IntRule exp_inflow_integrator = None" "baf_u exp_inflow_integrator = leftward"
  "baf_IntRule zero_inflow_integrator = None" "baf_u zero_inflow_integrator = leftward"
  "baf_uD zero_inflow_integrator = ConstantCoefficient 0"
  by (simp_all add: exp_inflow_integrator_def zero_inflow_integrator_def)

lemma upwind_face_integrator_fields:
  "dgf_IntRule upwind_face_integrator = None" "dgf_u upwind_face_integrator = leftward"
  by (simp_all add: upwind_face_integrator_def)

lemmas segment_facts =
  inflow_integrator_fields upwind_face_integrator_fields segment_P1_sizes face_rule_point_rules
  point_rules_def point_rule_def boundary_shapes weight_origin exp_inflow_value
  right_boundary_un [unfolded One_nat_def] left_boundary_un [unfolded One_nat_def]

theorem boundary_face_assembly_witness:
  "Elem2No right_boundary_face < 0 \<and> Elem2No left_boundary_face < 0
   \<and> Height (AssembleFaceMatrix point_rules upwind_face_integrator no_garbage segment_P1 segment_P1 right_boundary_face) = 2
   \<and> entry (AssembleFaceMatrix point_rules upwind_face_integrator no_garbage segment_P1 segment_P1 right_boundary_face) 1 1 = 0
   \<and> entry (AssembleFaceMatrix point_rules upwind_face_integrator no_garbage segment_P1 segment_P1 left_boundary_face) 0 0 = 1
   \<and> entry (AssembleFaceMatrix point_rules upwind_face_integrator no_garbage segment_P1 segment_P1 left_boundary_face) 2 0 = 0
   \<and> length (AssembleRHSElementVect_face point_rules exp_inflow_integrator no_garbage segment_P1 right_boundary_face) = 2
   \<and> AssembleRHSElementVect_face point_rules exp_inflow_integrator no_garbage segment_P1 right_boundary_face ! 1 = exp 1
   \<and> AssembleRHSElementVect_face point_rules exp_inflow_integrator no_garbage segment_P1 left_boundary_face ! 0 = 0"
proof -
  have R: "Elem2No right_boundary_face < 0" by (simp add: right_boundary_face_def)
  have L: "Elem2No left_boundary_face < 0" by (simp add: left_boundary_face_def)
  note TR = boundary_face_assembly [OF R, where el = segment_P1 and ?el2.0 = segment_P1
              and IntRules = point_rules and integ = upwind_face_integrator and ?nor0.0 = no_garbage
              and rhs = exp_inflow_integrator, unfolded Let_def]
  note TL = boundary_face_assembly [OF L, where el = segment_P1 and ?el2.0 = segment_P1
              and IntRules = point_rules and integ = upwind_face_integrator and ?nor0.0 = no_garbage
              and rhs = exp_inflow_integrator, unfolded Let_def]
  have "Height (AssembleFaceMatrix point_rules upwind_face_integrator no_garbage segment_P1 segment_P1 right_boundary_face) = 2"
    using TR [THEN conjunct1, THEN conjunct1] by (simp add: segment_facts)
  moreover have "entry (AssembleFaceMatrix point_rules upwind_face_integrator no_garbage segment_P1 segment_P1 right_boundary_face) 1 1 = 0"
    using TR [THEN conjunct1, THEN conjunct2, THEN conjunct2, THEN conjunct1, rule_format, of 1 1]
    by (simp add: segment_facts)
  moreover have "entry (AssembleFaceMatrix point_rules upwind_face_integrator no_garbage segment_P1 segment_P1 left_boundary_face) 0 0 = 1"
    using TL [THEN conjunct1, THEN conjunct2, THEN conjunct2, THEN conjunct1, rule_format, of 0 0]
    by (simp add: segment_facts)
  moreover have "entry (AssembleFaceMatrix point_rules upwind_face_integrator no_garbage segment_P1 segment_P1 left_boundary_face) 2 0 = 0"
    using TL [THEN conjunct1, THEN conjunct2, THEN conjunct2, THEN conjunct2, rule_format, of 2 0]
    by (simp add: segment_facts)
  moreover have "length (AssembleRHSElementVect_face point_rules exp_inflow_integrator no_garbage segment_P1 right_boundary_face) = 2"
    using TR [THEN conjunct2, THEN conjunct1] by (simp add: segment_facts)
  moreover have "AssembleRHSElementVect_face point_rules exp_inflow_integrator no_garbage segment_P1 right_boundary_face ! 1 = exp 1"
    using TR [THEN conjunct2, THEN conjunct2, THEN conjunct1, rule_format, of 1]
    by (simp add: segment_facts)
  moreover have "AssembleRHSElementVect_face point_rules exp_inflow_integrator no_garbage segment_P1 left_boundary_face ! 0 = 0"
    using TL [THEN conjunct2, THEN conjunct2, THEN conjunct1, rule_format, of 0]
    by (simp add: segment_facts)
  ultimately show ?thesis
    using R L by simp
qed

text \<open>
  C3 as stated has the weight nonzero if and only if \<open>un < 0\<close>. With the boundary value
  zero, at the right end of the segment where the velocity of \<^verbatim>\<open>main\<close> points into the
  domain, \<open>un = - 1\<close> and the weight is \<open>0\<close>.
\<close>

theorem zero_inflow_counterexample:
  "normal_velocity (baf_u zero_inflow_integrator) no_garbage 1 (Elem1 right_boundary_face)
     (Loc1 right_boundary_face origin) = - 1
   \<and> bdr_weight zero_inflow_integrator no_garbage 1 right_boundary_face origin = 0
   \<and> \<not> (bdr_weight zero_inflow_integrator no_garbage 1 right_boundary_face origin \<noteq> 0
          \<longleftrightarrow> normal_velocity (baf_u zero_inflow_integrator) no_garbage 1 (Elem1 right_boundary_face)
                (Loc1 right_boundary_face origin) < 0)"
  by (simp add: bdr_weight_def Let_def segment_facts ConstantCoefficient_def)

section \<open>The two failure paths of the integrators\<close>

text \<open>
  C6. \<^verbatim>\<open>BoundaryAdvectIntegrator::AssembleRHSElementVect\<close> called with a plain
  \<^verbatim>\<open>ElementTransformation\<close> ends in the fatal error of \<^verbatim>\<open>mfem_error\<close> whatever the
  integrator, the element, the transformation and the vector are; the error carries the
  message of the source, which is not empty; no vector is returned.
\<close>

theorem element_overload_always_aborts:
  "AssembleRHSElementVect_element integ el Tr elvect = Inl (mfem_abort not_implemented_message)
   \<and> (\<forall>v. AssembleRHSElementVect_element integ el Tr elvect \<noteq> Inr v)
   \<and> not_implemented_message \<noteq> []"
  by (simp add: AssembleRHSElementVect_element_def mfem_error_def not_implemented_message_def)

lemma delta_vect_unset_debug:
  "lf_delta integ = None \<Longrightarrow>
     AssembleDeltaElementVect True integ fe Trans
       = Inl (assertion_failure ''coefficient must be DeltaCoefficient'')"
  by (simp add: AssembleDeltaElementVect_def MFEM_ASSERT_def)

lemma delta_vect_unset_release:
  "lf_delta integ = None \<Longrightarrow> AssembleDeltaElementVect False integ fe Trans = Inl null_dereference"
  by (simp add: AssembleDeltaElementVect_def MFEM_ASSERT_def Let_def)

lemma delta_vect_set:
  "lf_delta integ = Some delta \<Longrightarrow>
     AssembleDeltaElementVect dbg integ fe Trans
       = Inr (map (\<lambda>i. CalcPhysShape fe Trans i * delta Trans (GetIntPoint Trans)) [0..<GetDof fe])"
  by (simp add: AssembleDeltaElementVect_def MFEM_ASSERT_def Let_def)

lemma delta_vect_rule_irrelevant:
  "AssembleDeltaElementVect dbg (integ\<lparr>lf_IntRule := r\<rparr>) fe Trans
     = AssembleDeltaElementVect dbg integ fe Trans"
  by (simp add: AssembleDeltaElementVect_def)

lemma no_delta_integrator_fields: "lf_delta no_delta_integrator = None"
  by (simp add: no_delta_integrator_def)

lemma delta_integrator_fields: "lf_delta delta_integrator = Some (\<lambda>T ip. 3)"
  by (simp add: delta_integrator_def)

text \<open>
  C7 as stated has the call fail with a fatal assertion whenever no delta coefficient is
  set. In a build without \<^verbatim>\<open>MFEM_DEBUG\<close> the assertion is compiled out: with \<^verbatim>\<open>delta\<close>
  null the call runs on to \<^verbatim>\<open>delta->EvalDelta\<close> and ends in the null dereference, not in
  an assertion failure.
\<close>

theorem delta_unset_release_counterexample:
  "lf_delta no_delta_integrator = None
   \<and> AssembleDeltaElementVect False no_delta_integrator segment_P1 (segment_element 2 0)
       = Inl null_dereference
   \<and> AssembleDeltaElementVect False no_delta_integrator segment_P1 (segment_element 2 0)
       \<noteq> Inl (assertion_failure ''coefficient must be DeltaCoefficient'')"
  by (simp add: delta_vect_unset_release no_delta_integrator_fields)

text \<open>
  C7, as amended. \<^verbatim>\<open>AdvDomainLFIntegrator::AssembleDeltaElementVect\<close> has no loop over a
  quadrature rule: with a delta coefficient set, in either build, entry \<open>i\<close> of the result
  is the physical shape value \<open>i\<close> at the transformation times the value of the delta
  coefficient at the integration point the transformation is set to, and the result is
  the same whatever \<^verbatim>\<open>IntRule\<close> is. With no delta coefficient set it fails with the
  assertion and its message when the library is built with \<^verbatim>\<open>MFEM_DEBUG\<close>; without
  \<^verbatim>\<open>MFEM_DEBUG\<close> there is no assertion, no vector is returned and the call ends in the
  dereference of the null pointer.
\<close>

theorem delta_element_vect:
  "(lf_delta integ = None \<longrightarrow>
      AssembleDeltaElementVect True integ fe Trans
        = Inl (assertion_failure ''coefficient must be DeltaCoefficient'')
      \<and> AssembleDeltaElementVect False integ fe Trans = Inl null_dereference
      \<and> (\<forall>dbg v. AssembleDeltaElementVect dbg integ fe Trans \<noteq> Inr v))
   \<and> (\<forall>dbg delta. lf_delta integ = Some delta \<longrightarrow>
         AssembleDeltaElementVect dbg integ fe Trans
           = Inr (map (\<lambda>i. CalcPhysShape fe Trans i * delta Trans (GetIntPoint Trans)) [0..<GetDof fe]))
   \<and> (\<forall>dbg r. AssembleDeltaElementVect dbg (integ\<lparr>lf_IntRule := r\<rparr>) fe Trans
                = AssembleDeltaElementVect dbg integ fe Trans)"
proof (intro conjI impI allI)
  assume none: "lf_delta integ = None"
  show "AssembleDeltaElementVect True integ fe Trans
          = Inl (assertion_failure ''coefficient must be DeltaCoefficient'')"
    using none by (rule delta_vect_unset_debug)
  show "AssembleDeltaElementVect False integ fe Trans = Inl null_dereference"
    using none by (rule delta_vect_unset_release)
  fix dbg v
  show "AssembleDeltaElementVect dbg integ fe Trans \<noteq> Inr v"
    using delta_vect_unset_debug [OF none, of fe Trans] delta_vect_unset_release [OF none, of fe Trans]
    by (cases dbg) simp_all
next
  fix dbg delta
  assume "lf_delta integ = Some delta"
  then show "AssembleDeltaElementVect dbg integ fe Trans
           = Inr (map (\<lambda>i. CalcPhysShape fe Trans i * delta Trans (GetIntPoint Trans)) [0..<GetDof fe])"
    by (rule delta_vect_set)
next
  fix dbg r
  show "AssembleDeltaElementVect dbg (integ\<lparr>lf_IntRule := r\<rparr>) fe Trans
          = AssembleDeltaElementVect dbg integ fe Trans"
    by (rule delta_vect_rule_irrelevant)
qed

theorem delta_element_vect_witness:
  "AssembleDeltaElementVect True no_delta_integrator segment_P1 (segment_element 2 0)
     = Inl (assertion_failure ''coefficient must be DeltaCoefficient'')
   \<and> AssembleDeltaElementVect False no_delta_integrator segment_P1 (segment_element 2 0)
     = Inl null_dereference
   \<and> AssembleDeltaElementVect True delta_integrator segment_P1
       (SetIntPoint (segment_element 2 0) (origin\<lparr>ip_x := 1 / 4\<rparr>))
     = Inr [9 / 4, 3 / 4]
   \<and> AssembleDeltaElementVect False delta_integrator segment_P1
       (SetIntPoint (segment_element 2 0) (origin\<lparr>ip_x := 1 / 4\<rparr>))
     = Inr [9 / 4, 3 / 4]"
proof -
  note N = delta_element_vect [of no_delta_integrator segment_P1 "segment_element 2 0",
             THEN conjunct1, rule_format, OF no_delta_integrator_fields]
  note S = delta_element_vect [of delta_integrator segment_P1
             "SetIntPoint (segment_element 2 0) (origin\<lparr>ip_x := 1 / 4\<rparr>)",
             THEN conjunct2, THEN conjunct1, rule_format, OF delta_integrator_fields]
  have v: "map (\<lambda>i. CalcPhysShape segment_P1 (SetIntPoint (segment_element 2 0) (origin\<lparr>ip_x := 1 / 4\<rparr>)) i
                     * 3) [0..<GetDof segment_P1] = [9 / 4, 3 / 4]"
    by (simp add: segment_P1_def segment_element_def SetIntPoint_def origin_def upt_rec)
  show ?thesis
    using N S [of True] S [of False] by (simp add: v)
qed

section \<open>The distance program\<close>

subsection \<open>The boundary values and the variables of \<^verbatim>\<open>main\<close>\<close>

lemma nth_fold_update_other:
  "d \<notin> set ds \<Longrightarrow> fold (\<lambda>k v'. v'[k := g k]) ds v ! d = v ! d"
  by (induction ds arbitrary: v) auto

lemma length_fold_update: "length (fold (\<lambda>k v'. v'[k := g k]) ds v) = length v"
  by (induction ds arbitrary: v) auto

lemma nth_fold_update:
  "d \<in> set ds \<Longrightarrow> d < length v \<Longrightarrow> fold (\<lambda>k v'. v'[k := g k]) ds v ! d = g d"
proof (induction ds arbitrary: v)
  case Nil
  then show ?case by simp
next
  case (Cons k ds)
  show ?case
  proof (cases "d \<in> set ds")
    case True
    then show ?thesis using Cons.IH [of "v[k := g k]"] Cons.prems by simp
  next
    case False
    then have "d = k" using Cons.prems by simp
    then show ?thesis using False Cons.prems by (simp add: nth_fold_update_other)
  qed
qed

lemma ProjectBdrCoefficient_constant:
  assumes "d \<in> set (GetBdrDofs fes attr)" and "d < length v"
  shows "ProjectBdrCoefficient fes (ConstantCoefficient c) attr v ! d = c"
  using nth_fold_update [OF assms, of "\<lambda>k. case GetDofPoint fes k of (T, ip) \<Rightarrow> ConstantCoefficient c T ip"]
  by (simp add: ProjectBdrCoefficient_def ConstantCoefficient_def split_def)

lemma boundary_data_one:
  assumes "d \<in> set (GetBdrDofs fespace (replicate (bdr_attributes_Max pmesh) 1))" and "d < GetVSize fespace"
  shows "boundary_data pmesh fespace ! d = 1"
  using ProjectBdrCoefficient_constant [OF assms(1), of "replicate (GetVSize fespace) 0" 1] assms(2)
  by (simp add: boundary_data_def Let_def)

lemma distance_solve_fields:
  "d_pmesh (distance_solve lib args) = MakeParMesh lib (mesh_file args) (rs_levels args) 2"
  "d_fespace (distance_solve lib args)
     = MakeSpace lib (d_pmesh (distance_solve lib args)) (d_fec (distance_solve lib args))"
  "d_ess_tdof_list (distance_solve lib args)
     = essential_dofs (d_pmesh (distance_solve lib args)) (d_fespace (distance_solve lib args))"
  "d_w_bc (distance_solve lib args)
     = boundary_data (d_pmesh (distance_solve lib args)) (d_fespace (distance_solve lib args))"
  "d_b (distance_solve lib args) = replicate (GetVSize (d_fespace (distance_solve lib args))) 0"
  "d_a (distance_solve lib args) = lhs_form args"
  "d_system (distance_solve lib args)
     = FormLinearSystem lib (d_fespace (distance_solve lib args)) (d_a (distance_solve lib args))
         (d_ess_tdof_list (distance_solve lib args)) (d_w_bc (distance_solve lib args))
         (d_b (distance_solve lib args))"
  "d_cg (distance_solve lib args)
     = configure_cg (select_preconditioner (pa args) (d_fespace (distance_solve lib args))
         (d_a (distance_solve lib args)) (d_ess_tdof_list (distance_solve lib args)))"
  "d_X (distance_solve lib args)
     = (case d_system (distance_solve lib args) of
          (A, X, B) \<Rightarrow> CGSolver_Mult lib (d_cg (distance_solve lib args)) A B X)"
  "d_w (distance_solve lib args)
     = RecoverFEMSolution lib (d_fespace (distance_solve lib args)) (d_a (distance_solve lib args))
         (d_X (distance_solve lib args)) (d_b (distance_solve lib args)) (d_w_bc (distance_solve lib args))"
  "d_u (distance_solve lib args) = Varadhan (t_param args) (d_w (distance_solve lib args))"
  "d_exact_dist (distance_solve lib args) = select_exact_dist (mesh_file args)"
  by (simp_all add: distance_solve_def Let_def split_def)

lemma distance_solve_errors:
  "d_errors (distance_solve lib args)
     = (case d_exact_dist (distance_solve lib args) of
          None \<Rightarrow> None
        | Some e \<Rightarrow> Some (ComputeL1Error lib (d_fespace (distance_solve lib args)) (d_u (distance_solve lib args)) e,
                          ComputeMaxError lib (d_fespace (distance_solve lib args)) (d_u (distance_solve lib args)) e))"
  by (simp add: distance_solve_def Let_def split_def split: option.splits)


lemma Solve_CG_in_trace: "Solve_CG (d_cg vars) \<in> set (distance_trace myid args vars)"
  by (simp add: distance_trace_def)

subsection \<open>The solver\<close>

text \<open>
  C5. In every run of \<^verbatim>\<open>distance\<close> that gets past the options, the system is solved by
  the conjugate gradient solver with relative tolerance \<^verbatim>\<open>1e-12\<close> and at most 5000
  iterations; its preconditioner is \<^verbatim>\<open>HypreBoomerAMG\<close> when \<^verbatim>\<open>pa\<close> is false, the
  \<^verbatim>\<open>OperatorJacobiSmoother\<close> of the form and the essential degrees of freedom when \<^verbatim>\<open>pa\<close>
  is true and the space uses a tensor basis, and none when \<^verbatim>\<open>pa\<close> is true and it does
  not.
\<close>

theorem distance_cg_configuration:
  "let vars = distance_solve lib args;
       cg = d_cg vars
   in cg_RelTol cg = 1 / 10 ^ 12
    \<and> cg_MaxIter cg = 5000
    \<and> Solve_CG cg \<in> set (distance_trace myid args vars)
    \<and> d_X vars = (case d_system vars of (A, X, B) \<Rightarrow> CGSolver_Mult lib cg A B X)
    \<and> (\<not> pa args \<longrightarrow> cg_Preconditioner cg = Some HypreBoomerAMG)
    \<and> (pa args \<and> UsesTensorBasis (d_fespace vars) \<longrightarrow>
          cg_Preconditioner cg = Some (OperatorJacobiSmoother (d_a vars) (d_ess_tdof_list vars)))
    \<and> (pa args \<and> \<not> UsesTensorBasis (d_fespace vars) \<longrightarrow> cg_Preconditioner cg = None)"
  unfolding Let_def
  using distance_solve_fields(9) [of lib args] Solve_CG_in_trace [of "distance_solve lib args" myid args]
  by (simp add: distance_solve_fields(8) configure_cg_def select_preconditioner_def)

lemma segment_run_space:
  "UsesTensorBasis (d_fespace (distance_solve (segment_library parse tensor) args)) = tensor"
  "GetVSize (d_fespace (distance_solve (segment_library parse tensor) args))
     = 2 ^ (nat (rs_levels args) + 2) + 1"
  "GetBdrDofs (d_fespace (distance_solve (segment_library parse tensor) args)) marker
     = [0, 2 ^ (nat (rs_levels args) + 2)]"
  "d_ess_tdof_list (distance_solve (segment_library parse tensor) args)
     = [0, 2 ^ (nat (rs_levels args) + 2)]"
  by (simp_all add: distance_solve_fields segment_library_def segment_space_def segment_mesh_def
        essential_dofs_def Let_def)

theorem distance_cg_configuration_witness:
  "cg_RelTol (d_cg (distance_solve (segment_library distance_parser True) distance_defaults)) = 1 / 10 ^ 12
   \<and> cg_MaxIter (d_cg (distance_solve (segment_library distance_parser True) distance_defaults)) = 5000
   \<and> cg_Preconditioner (d_cg (distance_solve (segment_library distance_parser True) distance_defaults))
       = Some HypreBoomerAMG
   \<and> cg_Preconditioner (d_cg (distance_solve (segment_library distance_parser True) (distance_defaults\<lparr>pa := True\<rparr>)))
       = Some (OperatorJacobiSmoother (lhs_form (distance_defaults\<lparr>pa := True\<rparr>)) [0, 4])
   \<and> cg_Preconditioner (d_cg (distance_solve (segment_library distance_parser False) (distance_defaults\<lparr>pa := True\<rparr>)))
       = None"
  using distance_cg_configuration [of "segment_library distance_parser True" distance_defaults 0]
        distance_cg_configuration [of "segment_library distance_parser True" "distance_defaults\<lparr>pa := True\<rparr>" 0]
        distance_cg_configuration [of "segment_library distance_parser False" "distance_defaults\<lparr>pa := True\<rparr>" 0]
  by (simp add: Let_def segment_run_space distance_solve_fields(6) distance_defaults_def)

subsection \<open>The field that is compared with the exact distance\<close>

lemma length_Varadhan: "length (Varadhan t w) = length w"
  by (simp add: Varadhan_def)

lemma nth_Varadhan: "i < length w \<Longrightarrow> Varadhan t w ! i = - sqrt t * ln (w ! i)"
  by (simp add: Varadhan_def)

lemma errors_in_trace:
  "d_errors vars = Some (l1, linf) \<Longrightarrow>
     Print_L1_error l1 \<in> set (distance_trace 0 args vars)
     \<and> Print_Linf_error linf \<in> set (distance_trace 0 args vars)"
  by (simp add: distance_trace_def)

text \<open>
  C9. The vector \<open>u\<close> has the size of the solution \<open>w\<close> recovered from the solver and
  \<open>u(i) = - sqrt t_param * log (w(i))\<close> at every index; the two errors, when an exact
  distance is selected, are those of \<open>u\<close>, and process 0 prints them. Before the solve,
  \<open>w\<close> is the zero vector on which the constant 1 is projected with a marker that is 1 at
  every boundary attribute: \<open>w\<close> is 1 at each degree of freedom of the boundary.
\<close>

theorem varadhan_field_reported:
  "let vars = distance_solve lib args;
       fes = d_fespace vars;
       marker = replicate (bdr_attributes_Max (d_pmesh vars)) (1::int)
   in length (d_u vars) = length (d_w vars)
    \<and> (\<forall>i<length (d_u vars). d_u vars ! i = - sqrt (t_param args) * ln (d_w vars ! i))
    \<and> d_w vars = RecoverFEMSolution lib fes (d_a vars) (d_X vars) (d_b vars) (d_w_bc vars)
    \<and> (\<forall>e. d_exact_dist vars = Some e \<longrightarrow>
          d_errors vars = Some (ComputeL1Error lib fes (d_u vars) e, ComputeMaxError lib fes (d_u vars) e))
    \<and> (\<forall>l1 linf. d_errors vars = Some (l1, linf) \<longrightarrow>
          Print_L1_error l1 \<in> set (distance_trace 0 args vars)
          \<and> Print_Linf_error linf \<in> set (distance_trace 0 args vars))
    \<and> d_w_bc vars
        = ProjectBdrCoefficient fes (ConstantCoefficient 1) marker (replicate (GetVSize fes) 0)
    \<and> (\<forall>k<length marker. marker ! k = 1)
    \<and> (\<forall>d\<in>set (GetBdrDofs fes marker). d < GetVSize fes \<longrightarrow> d_w_bc vars ! d = 1)"
proof -
  let ?vars = "distance_solve lib args"
  have u: "d_u ?vars = Varadhan (t_param args) (d_w ?vars)"
    by (rule distance_solve_fields)
  have bc: "d_w_bc ?vars = boundary_data (d_pmesh ?vars) (d_fespace ?vars)"
    by (rule distance_solve_fields)
  have err: "d_exact_dist ?vars = Some e \<Longrightarrow>
      d_errors ?vars = Some (ComputeL1Error lib (d_fespace ?vars) (d_u ?vars) e,
                             ComputeMaxError lib (d_fespace ?vars) (d_u ?vars) e)" for e
    by (simp add: distance_solve_errors [of lib args])
  show ?thesis
    unfolding Let_def
    using distance_solve_fields(10) [of lib args] err errors_in_trace [of ?vars _ _ args]
    by (auto simp add: u bc length_Varadhan nth_Varadhan boundary_data_one)
       (simp add: boundary_data_def Let_def)
qed


lemma scenario_A_options_fields:
  "mesh_file scenario_A_options = ''../data/inline-segment.mesh''"
  "rs_levels scenario_A_options = 3"
  "t_param scenario_A_options = 1 / 2"
  "pa scenario_A_options = False"
  by (simp_all add: scenario_A_options_def distance_defaults_def)

lemma scenario_A_space:
  "GetVSize (d_fespace scenario_A_vars) = 33"
  "GetBdrDofs (d_fespace scenario_A_vars) marker = [0, 32]"
  "d_ess_tdof_list scenario_A_vars = [0, 32]"
  by (simp_all add: scenario_A_vars_def segment_run_space scenario_A_options_fields)

lemma scenario_A_data:
  "d_b scenario_A_vars = replicate 33 0"
  "d_w_bc scenario_A_vars = (replicate 33 0)[0 := 1, 32 := 1]"
  using scenario_A_space(1,2)
  by (simp_all add: scenario_A_vars_def distance_solve_fields(4,5) boundary_data_def Let_def
        ProjectBdrCoefficient_def ConstantCoefficient_def split_def)

lemma scenario_A_solution:
  "d_w scenario_A_vars = replicate 33 1"
proof -
  have "length (d_w_bc scenario_A_vars) = 33"
    by (simp add: scenario_A_data)
  then show ?thesis
    by (simp add: scenario_A_vars_def distance_solve_fields(7,9,10) segment_library_def)
qed

theorem varadhan_field_reported_witness:
  "length (d_u scenario_A_vars) = 33
   \<and> d_w scenario_A_vars ! 3 = 1
   \<and> d_u scenario_A_vars ! 3 = 0
   \<and> d_w_bc scenario_A_vars ! 0 = 1
   \<and> d_w_bc scenario_A_vars ! 32 = 1
   \<and> d_exact_dist scenario_A_vars = Some ExactSegmentDistCoeff
   \<and> d_errors scenario_A_vars
       = Some (ComputeL1Error (segment_library distance_parser True) (d_fespace scenario_A_vars)
                 (d_u scenario_A_vars) ExactSegmentDistCoeff,
               ComputeMaxError (segment_library distance_parser True) (d_fespace scenario_A_vars)
                 (d_u scenario_A_vars) ExactSegmentDistCoeff)"
proof -
  note T = varadhan_field_reported [of "segment_library distance_parser True" scenario_A_options,
             unfolded Let_def, folded scenario_A_vars_def]
  have ex: "d_exact_dist scenario_A_vars = Some ExactSegmentDistCoeff"
    by (simp add: scenario_A_vars_def distance_solve_fields(12) select_exact_dist_def
          scenario_A_options_fields Let_def)
  have len: "length (d_u scenario_A_vars) = 33"
    using T [THEN conjunct1] by (simp add: scenario_A_solution)
  have u3: "d_u scenario_A_vars ! 3 = 0"
    using T [THEN conjunct2, THEN conjunct1, rule_format, of 3] len
    by (simp add: scenario_A_solution)
  have err: "d_errors scenario_A_vars
       = Some (ComputeL1Error (segment_library distance_parser True) (d_fespace scenario_A_vars)
                 (d_u scenario_A_vars) ExactSegmentDistCoeff,
               ComputeMaxError (segment_library distance_parser True) (d_fespace scenario_A_vars)
                 (d_u scenario_A_vars) ExactSegmentDistCoeff)"
    using T [THEN conjunct2, THEN conjunct2, THEN conjunct2, THEN conjunct1, rule_format, OF ex] .
  have b0: "d_w_bc scenario_A_vars ! 0 = 1"
    using T [THEN conjunct2, THEN conjunct2, THEN conjunct2, THEN conjunct2, THEN conjunct2,
             THEN conjunct2, THEN conjunct2, rule_format, of 0]
    by (simp add: scenario_A_space)
  have b32: "d_w_bc scenario_A_vars ! 32 = 1"
    using T [THEN conjunct2, THEN conjunct2, THEN conjunct2, THEN conjunct2, THEN conjunct2,
             THEN conjunct2, THEN conjunct2, rule_format, of 32]
    by (simp add: scenario_A_space)
  show ?thesis
    using len u3 err b0 b32 ex by (simp add: scenario_A_solution)
qed

subsection \<open>The sample run on the segment\<close>







section \<open>The command line of the two programs\<close>

lemma exAdvection_main_bad:
  "Parse lib advection_defaults argv = None \<Longrightarrow> exAdvection_main ss lib argv = (1, [PrintUsage])"
  by (simp add: exAdvection_main_def)

lemma exAdvection_main_good:
  "Parse lib advection_defaults argv = Some args \<Longrightarrow>
     exAdvection_main ss lib argv = (0, exAdvection_trace ss (exAdvection_solve ss lib args))"
  by (simp add: exAdvection_main_def)

lemma distance_main_bad:
  "Parse lib distance_defaults argv = None \<Longrightarrow>
     distance_main lib myid argv = (1, (if myid = 0 then [PrintUsage] else []) @ [MPI_Finalize])"
  by (simp add: distance_main_def)

lemma distance_main_good:
  "Parse lib distance_defaults argv = Some args \<Longrightarrow>
     distance_main lib myid argv = (0, distance_trace myid args (distance_solve lib args))"
  by (simp add: distance_main_def)

lemma distance_job_bad:
  assumes "Parse lib distance_defaults argv = None" and "0 < num_procs"
  shows "distance_job lib num_procs argv ! 0 = (1, [PrintUsage, MPI_Finalize])"
    and "\<forall>r\<in>set (distance_job lib num_procs argv). fst r = 1 \<and> \<not> (\<exists>e\<in>set (snd r). assembles_or_solves e)"
  using assms by (auto simp add: distance_job_def distance_main_bad)

lemma distance_job_good:
  assumes "Parse lib distance_defaults argv = Some args"
  shows "\<forall>r\<in>set (distance_job lib num_procs argv). fst r = 0"
  using assms by (auto simp add: distance_job_def distance_main_good)

text \<open>
  C8. When the parser rejects the command line, \<^verbatim>\<open>exAdvection\<close> prints the usage text
  and returns 1, having done nothing else. \<^verbatim>\<open>distance\<close> returns 1 on every process, with
  no assembly and no solve in its trace; process 0 prints the usage text, so that a run
  on any number of processes prints it and every process returns 1. When the parser
  accepts the command line, both programs return 0 (the library calls of the model always
  return).
\<close>

theorem command_line_exit_status:
  "(Parse alib advection_defaults argv = None \<longrightarrow>
      exAdvection_main ss alib argv = (1, [PrintUsage]))
   \<and> (Parse alib advection_defaults argv \<noteq> None \<longrightarrow>
      fst (exAdvection_main ss alib argv) = 0)
   \<and> (Parse dlib distance_defaults argv = None \<longrightarrow>
      distance_main dlib 0 argv = (1, [PrintUsage, MPI_Finalize])
      \<and> (\<forall>myid. fst (distance_main dlib myid argv) = 1
                 \<and> \<not> (\<exists>e\<in>set (snd (distance_main dlib myid argv)). assembles_or_solves e))
      \<and> (0 < num_procs \<longrightarrow>
            distance_job dlib num_procs argv ! 0 = (1, [PrintUsage, MPI_Finalize])
            \<and> (\<forall>r\<in>set (distance_job dlib num_procs argv).
                  fst r = 1 \<and> \<not> (\<exists>e\<in>set (snd r). assembles_or_solves e))))
   \<and> (Parse dlib distance_defaults argv \<noteq> None \<longrightarrow>
      (\<forall>myid. fst (distance_main dlib myid argv) = 0)
      \<and> (\<forall>r\<in>set (distance_job dlib num_procs argv). fst r = 0))"
proof (intro conjI impI)
  assume "Parse alib advection_defaults argv = None"
  then show "exAdvection_main ss alib argv = (1, [PrintUsage])"
    by (rule exAdvection_main_bad)
next
  assume "Parse alib advection_defaults argv \<noteq> None"
  then obtain args where "Parse alib advection_defaults argv = Some args" by auto
  then show "fst (exAdvection_main ss alib argv) = 0"
    by (simp add: exAdvection_main_good)
next
  assume bad: "Parse dlib distance_defaults argv = None"
  show "distance_main dlib 0 argv = (1, [PrintUsage, MPI_Finalize])"
    using bad by (simp add: distance_main_bad)
  show "\<forall>myid. fst (distance_main dlib myid argv) = 1
          \<and> \<not> (\<exists>e\<in>set (snd (distance_main dlib myid argv)). assembles_or_solves e)"
    using bad by (simp add: distance_main_bad)
  assume "0 < num_procs"
  then show "distance_job dlib num_procs argv ! 0 = (1, [PrintUsage, MPI_Finalize])"
    and "\<forall>r\<in>set (distance_job dlib num_procs argv).
           fst r = 1 \<and> \<not> (\<exists>e\<in>set (snd r). assembles_or_solves e)"
    using distance_job_bad [OF bad] by blast+
next
  assume "Parse dlib distance_defaults argv \<noteq> None"
  then obtain args where good: "Parse dlib distance_defaults argv = Some args" by auto
  show "\<forall>myid. fst (distance_main dlib myid argv) = 0"
    using good by (simp add: distance_main_good)
  show "\<forall>r\<in>set (distance_job dlib num_procs argv). fst r = 0"
    using distance_job_good [OF good] .
qed

theorem command_line_exit_status_witness:
  "exAdvection_main False (segment_library advection_parser True) bad_argv = (1, [PrintUsage])
   \<and> fst (exAdvection_main False (segment_library advection_parser True) []) = 0
   \<and> distance_main (segment_library distance_parser True) 0 bad_argv = (1, [PrintUsage, MPI_Finalize])
   \<and> distance_main (segment_library distance_parser True) 1 bad_argv = (1, [MPI_Finalize])
   \<and> distance_job (segment_library distance_parser True) 4 bad_argv ! 0 = (1, [PrintUsage, MPI_Finalize])
   \<and> fst (distance_main (segment_library distance_parser True) 0 scenario_A_argv) = 0"
proof -
  have p1: "Parse (segment_library advection_parser True) advection_defaults bad_argv = None"
    by (simp add: segment_library_def advection_parser_def bad_argv_def)
  have p2: "Parse (segment_library advection_parser True) advection_defaults [] \<noteq> None"
    by (simp add: segment_library_def advection_parser_def)
  have p3: "Parse (segment_library distance_parser True) distance_defaults bad_argv = None"
    by (simp add: segment_library_def distance_parser_def bad_argv_def scenario_A_argv_def)
  have p4: "Parse (segment_library distance_parser True) distance_defaults scenario_A_argv \<noteq> None"
    by (simp add: segment_library_def distance_parser_def scenario_A_argv_def)
  have "distance_main (segment_library distance_parser True) 1 bad_argv = (1, [MPI_Finalize])"
    using p3 by (simp add: distance_main_def)
  then show ?thesis
    using command_line_exit_status [of "segment_library advection_parser True" bad_argv False
            "segment_library distance_parser True" 4]
          command_line_exit_status [of "segment_library advection_parser True" "[]" False
            "segment_library distance_parser True" 4]
          command_line_exit_status [of "segment_library advection_parser True" scenario_A_argv False
            "segment_library distance_parser True" 4]
          p1 p2 p3 p4
    by simp
qed

section \<open>The advection program\<close>

lemma exAdvection_solve_fields:
  "a_x_projected (exAdvection_solve ss lib args)
     = ProjectCoefficient lib (a_fespace (exAdvection_solve ss lib args)) (FunctionCoefficient u_exact)"
  "a_x (exAdvection_solve ss lib args)
     = (if ss
        then UMFPackSolver_Mult lib (a_A (exAdvection_solve ss lib args))
               (a_b_vector (exAdvection_solve ss lib args)) (a_x_projected (exAdvection_solve ss lib args))
        else GMRES lib (a_A (exAdvection_solve ss lib args)) (GSSmoother (a_A (exAdvection_solve ss lib args)))
               (a_b_vector (exAdvection_solve ss lib args)) (a_x_projected (exAdvection_solve ss lib args))
               1 1000 200 (1 / 10 ^ 60) (1 / 10 ^ 60))"
  "a_norm (exAdvection_solve ss lib args)
     = ComputeL2Error lib (a_fespace (exAdvection_solve ss lib args)) (a_x (exAdvection_solve ss lib args))
         (FunctionCoefficient u_exact)"
  "a_fespace (exAdvection_solve ss lib args)
     = MakeSpace lib (MakeMesh1D lib (adv_N args) 1)
         (DG_FECollection (adv_order args) (Dimension (MakeMesh1D lib (adv_N args) 1)))"
  by (simp_all add: exAdvection_solve_def Let_def)

text \<open>
  C10. In \<^verbatim>\<open>exAdvection\<close> the vector \<open>x\<close> is the projection of the exact solution, whose
  value at a point is \<open>exp (x(0))\<close>, and the solver is called with that vector as its
  \<open>x\<close> argument: \<^verbatim>\<open>GMRES\<close> takes it as the starting iterate (and, when the program is
  compiled with SuiteSparse, \<^verbatim>\<open>UMFPackSolver::Mult\<close> is handed the same vector). The norm
  that is printed is the L2 error of what the solver leaves in \<open>x\<close>, against the same
  exact solution.
\<close>

theorem advection_initial_iterate:
  "let vars = exAdvection_solve ss lib args;
       u = FunctionCoefficient u_exact
   in a_x_projected vars = ProjectCoefficient lib (a_fespace vars) u
    \<and> (\<forall>T ip. u T ip = exp (Transform T ip ! 0))
    \<and> (\<not> ss \<longrightarrow>
          a_x vars = GMRES lib (a_A vars) (GSSmoother (a_A vars)) (a_b_vector vars) (a_x_projected vars)
                       1 1000 200 (1 / 10 ^ 60) (1 / 10 ^ 60))
    \<and> (ss \<longrightarrow> a_x vars = UMFPackSolver_Mult lib (a_A vars) (a_b_vector vars) (a_x_projected vars))
    \<and> a_norm vars = ComputeL2Error lib (a_fespace vars) (a_x vars) u
    \<and> Print_solution_norm (a_norm vars) \<in> set (exAdvection_trace ss vars)"
proof (cases ss)
  case True
  then show ?thesis
    unfolding Let_def
    using exAdvection_solve_fields(1,2,3) [of True lib args]
    by (simp add: FunctionCoefficient_def u_exact_def exAdvection_trace_def)
next
  case False
  then show ?thesis
    unfolding Let_def
    using exAdvection_solve_fields(1,2,3) [of False lib args]
    by (simp add: FunctionCoefficient_def u_exact_def exAdvection_trace_def)
qed

theorem advection_initial_iterate_witness:
  "length (a_x_projected (exAdvection_solve False (segment_library advection_parser True) advection_defaults)) = 21
   \<and> a_x_projected (exAdvection_solve False (segment_library advection_parser True) advection_defaults) ! 0 = 1
   \<and> a_x_projected (exAdvection_solve False (segment_library advection_parser True) advection_defaults) ! 20 = exp 1
   \<and> a_x (exAdvection_solve False (segment_library advection_parser True) advection_defaults) = replicate 21 1"
proof -
  let ?lib = "segment_library advection_parser True :: advection_options library"
  note T = advection_initial_iterate [of False ?lib advection_defaults, unfolded Let_def]
  have fes: "a_fespace (exAdvection_solve False ?lib advection_defaults)
               = segment_space True (segment_mesh 20) (DG_FECollection 1 1)"
    by (simp add: exAdvection_solve_fields(4) segment_library_def advection_defaults_def segment_mesh_def)
  have proj: "ProjectCoefficient ?lib = nodal_values"
    by (simp add: segment_library_def)
  have x0: "a_x_projected (exAdvection_solve False ?lib advection_defaults)
              = map (\<lambda>d. exp (real d / 20)) [0..<21]"
    using T [THEN conjunct1]
    by (simp add: fes proj nodal_values_def segment_space_def segment_mesh_def segment_element_def
          origin_def FunctionCoefficient_def u_exact_def)
  have x: "a_x (exAdvection_solve False ?lib advection_defaults) = replicate 21 1"
    using T [THEN conjunct2, THEN conjunct2, THEN conjunct1] x0
    by (simp add: segment_library_def)
  show ?thesis
    using x by (simp add: x0)
qed

end
